theory Spec2Isabelle
  imports Main "HOL-Library.Word"
begin

section \<open>Python values used by the webhook relay\<close>

text \<open>
  The repository holds two variants of one Flask application, \<^verbatim>\<open>app.py\<close> and
  \<^verbatim>\<open>qpp.py\<close>. Both define \<^verbatim>\<open>verify_signature\<close>, \<^verbatim>\<open>extract_user_query\<close>,
  \<^verbatim>\<open>ask_openai\<close> and \<^verbatim>\<open>wechat_callback\<close>; the embedding keeps these names and
  prefixes them with the file they come from.

  A Python \<^verbatim>\<open>str\<close> is a sequence of Unicode code points, so it is modelled as a list of
  natural numbers and \<open>length\<close> counts what Python's \<^verbatim>\<open>len\<close> and slicing count. A
  \<^verbatim>\<open>bytes\<close> object is a list of 8-bit words.
\<close>

type_synonym pystr = "nat list"
type_synonym bytes = "8 word list"

definition ascii :: "string \<Rightarrow> pystr" where
  "ascii s = map of_char s"

text \<open>
  The value tree that \<^verbatim>\<open>json.loads\<close> builds: \<^verbatim>\<open>None\<close>, \<^verbatim>\<open>bool\<close>, \<^verbatim>\<open>int\<close>,
  \<^verbatim>\<open>float\<close>, \<^verbatim>\<open>str\<close>, \<^verbatim>\<open>list\<close> and \<^verbatim>\<open>dict\<close> with string keys. A dict is an
  association list in insertion order (the order \<^verbatim>\<open>json.dumps\<close> writes); lookup takes the
  first binding of a key. Floating-point numbers stay abstract: the type \<open>'f\<close> with the
  two operations the program needs from them.
\<close>

datatype 'f json =
    JNull
  | JBool bool
  | JInt int
  | JFloat 'f
  | JStr pystr
  | JArr "'f json list"
  | JObj "(pystr \<times> 'f json) list"

record 'f float_ops =
  float_is_zero :: "'f \<Rightarrow> bool"
  float_repr :: "'f \<Rightarrow> pystr"

datatype pyexc =
    AttributeError pystr
  | TypeError pystr
  | IndexError pystr
  | KeyError pystr
  | RequestException pystr
  | HTTPError pystr
  | JSONDecodeError pystr
  | BadRequest pystr

text \<open>\<^verbatim>\<open>str(e)\<close>, as the f-string in \<^verbatim>\<open>ask_openai\<close> formats the exception.\<close>

fun exc_str :: "pyexc \<Rightarrow> pystr" where
  "exc_str (AttributeError m) = m"
| "exc_str (TypeError m) = m"
| "exc_str (IndexError m) = m"
| "exc_str (KeyError m) = m"
| "exc_str (RequestException m) = m"
| "exc_str (HTTPError m) = m"
| "exc_str (JSONDecodeError m) = m"
| "exc_str (BadRequest m) = m"

text \<open>Sequencing of steps that may raise: the first exception leaves the function.\<close>

fun bind_exc :: "pyexc + 'a \<Rightarrow> ('a \<Rightarrow> pyexc + 'b) \<Rightarrow> pyexc + 'b" where
  "bind_exc (Inl e) f = Inl e"
| "bind_exc (Inr x) f = f x"

fun py_type_name :: "'f json \<Rightarrow> pystr" where
  "py_type_name JNull = ascii ''NoneType''"
| "py_type_name (JBool b) = ascii ''bool''"
| "py_type_name (JInt i) = ascii ''int''"
| "py_type_name (JFloat x) = ascii ''float''"
| "py_type_name (JStr s) = ascii ''str''"
| "py_type_name (JArr xs) = ascii ''list''"
| "py_type_name (JObj kvs) = ascii ''dict''"

text \<open>Truth value of a Python object, as \<^verbatim>\<open>or\<close>, \<^verbatim>\<open>not\<close> and \<^verbatim>\<open>if\<close> test it.\<close>

fun py_truthy :: "'f float_ops \<Rightarrow> 'f json \<Rightarrow> bool" where
  "py_truthy fl JNull = False"
| "py_truthy fl (JBool b) = b"
| "py_truthy fl (JInt i) = (i \<noteq> 0)"
| "py_truthy fl (JFloat x) = (\<not> float_is_zero fl x)"
| "py_truthy fl (JStr s) = (s \<noteq> [])"
| "py_truthy fl (JArr xs) = (xs \<noteq> [])"
| "py_truthy fl (JObj kvs) = (kvs \<noteq> [])"

definition py_or :: "'f float_ops \<Rightarrow> 'f json \<Rightarrow> 'f json \<Rightarrow> 'f json" where
  "py_or fl a b = (if py_truthy fl a then a else b)"

text \<open>\<^verbatim>\<open>d.get(k, default)\<close> on a dict, and the same attribute access on any value:
  only a dict has a \<^verbatim>\<open>get\<close> method, every other value raises \<^verbatim>\<open>AttributeError\<close>.\<close>

definition dict_get :: "(pystr \<times> 'f json) list \<Rightarrow> pystr \<Rightarrow> 'f json \<Rightarrow> 'f json" where
  "dict_get kvs k d = (case map_of kvs k of None \<Rightarrow> d | Some v \<Rightarrow> v)"

definition no_attribute :: "pystr \<Rightarrow> string \<Rightarrow> pyexc" where
  "no_attribute tyname a =
     AttributeError (ascii [CHR 0x27] @ tyname @ ascii [CHR 0x27]
       @ ascii '' object has no attribute '' @ ascii [CHR 0x27] @ ascii a @ ascii [CHR 0x27])"

fun py_get :: "'f json \<Rightarrow> pystr \<Rightarrow> 'f json \<Rightarrow> pyexc + 'f json" where
  "py_get (JObj kvs) k d = Inr (dict_get kvs k d)"
| "py_get v k d = Inl (no_attribute (py_type_name v) ''get'')"

subsection \<open>\<^verbatim>\<open>str.strip\<close> and slicing\<close>

text \<open>The code points for which \<^verbatim>\<open>str.isspace\<close> holds; \<^verbatim>\<open>strip()\<close> without an
  argument removes them from both ends.\<close>

definition py_isspace :: "nat \<Rightarrow> bool" where
  "py_isspace c \<longleftrightarrow>
     (0x09 \<le> c \<and> c \<le> 0x0D) \<or> (0x1C \<le> c \<and> c \<le> 0x20) \<or> c = 0x85 \<or> c = 0xA0 \<or>
     c = 0x1680 \<or> (0x2000 \<le> c \<and> c \<le> 0x200A) \<or> c = 0x2028 \<or> c = 0x2029 \<or>
     c = 0x202F \<or> c = 0x205F \<or> c = 0x3000"

definition py_strip :: "pystr \<Rightarrow> pystr" where
  "py_strip s = rev (dropWhile py_isspace (rev (dropWhile py_isspace s)))"

text \<open>\<^verbatim>\<open>s[:n]\<close>: a negative bound counts from the end.\<close>

definition py_slice_to :: "int \<Rightarrow> 'a list \<Rightarrow> 'a list" where
  "py_slice_to n s = (if 0 \<le> n then take (nat n) s else take (length s - nat (- n)) s)"

subsection \<open>\<^verbatim>\<open>json.dumps(payload, ensure_ascii=False)\<close>\<close>

fun str_nat :: "nat \<Rightarrow> pystr" where
  "str_nat n = (if n < 10 then [48 + n] else str_nat (n div 10) @ [48 + n mod 10])"

declare str_nat.simps [simp del]

definition str_int :: "int \<Rightarrow> pystr" where
  "str_int i = (if i < 0 then 45 # str_nat (nat (- i)) else str_nat (nat i))"

definition hex_digit :: "nat \<Rightarrow> nat" where
  "hex_digit d = (if d < 10 then 48 + d else 87 + d)"

text \<open>With \<^verbatim>\<open>ensure_ascii=False\<close> the encoder escapes the quote, the backslash and the
  control characters below \<^verbatim>\<open>0x20\<close>, and copies every other code point.\<close>

definition escape_char :: "nat \<Rightarrow> pystr" where
  "escape_char c =
     (if c = 0x22 then [0x5C, 0x22]
      else if c = 0x5C then [0x5C, 0x5C]
      else if c = 0x0A then [0x5C, 0x6E]
      else if c = 0x0D then [0x5C, 0x72]
      else if c = 0x09 then [0x5C, 0x74]
      else if c = 0x08 then [0x5C, 0x62]
      else if c = 0x0C then [0x5C, 0x66]
      else if c < 0x20 then [0x5C, 0x75, 0x30, 0x30, hex_digit (c div 16), hex_digit (c mod 16)]
      else [c])"

definition encode_basestring :: "pystr \<Rightarrow> pystr" where
  "encode_basestring s = 0x22 # concat (map escape_char s) @ [0x22]"

fun join :: "pystr \<Rightarrow> pystr list \<Rightarrow> pystr" where
  "join sep [] = []"
| "join sep [x] = x"
| "join sep (x # y # ys) = x @ sep @ join sep (y # ys)"

primrec json_dumps :: "'f float_ops \<Rightarrow> 'f json \<Rightarrow> pystr" where
  "json_dumps fl JNull = ascii ''null''"
| "json_dumps fl (JBool b) = (if b then ascii ''true'' else ascii ''false'')"
| "json_dumps fl (JInt i) = str_int i"
| "json_dumps fl (JFloat x) = float_repr fl x"
| "json_dumps fl (JStr s) = encode_basestring s"
| "json_dumps fl (JArr xs) =
     ascii ''['' @ join (ascii '', '') (map (json_dumps fl) xs) @ ascii '']''"
| "json_dumps fl (JObj kvs) =
     ascii ''{''
     @ join (ascii '', '')
         (map (\<lambda>kv. encode_basestring (fst kv) @ ascii '': '' @ snd kv)
            (map (map_prod id (json_dumps fl)) kvs))
     @ ascii ''}''"

section \<open>The query extractor\<close>

text \<open>
  \<^verbatim>\<open>
  candidates = [
      payload.get("query"),
      payload.get("text"),
      payload.get("content"),
      (payload.get("message") or {}).get("text"),
      (payload.get("nlpResult") or {}).get("text"),
  ]
  for c in candidates:
      if isinstance(c, str) and c.strip():
          return c.strip()
  return json.dumps(payload, ensure_ascii=False)
  \<close>
  The list is built before the loop runs, so an exception in any of the five lookups
  leaves the function before a candidate is looked at. \<^verbatim>\<open>qpp.py\<close> lists
  \<^verbatim>\<open>nlpResult\<close> before \<^verbatim>\<open>message\<close>.
\<close>

definition nested_text :: "'f float_ops \<Rightarrow> 'f json \<Rightarrow> string \<Rightarrow> pyexc + 'f json" where
  "nested_text fl payload parent =
     bind_exc (py_get payload (ascii parent) JNull)
       (\<lambda>p. py_get (py_or fl p (JObj [])) (ascii ''text'') JNull)"

fun first_candidate :: "'f json list \<Rightarrow> pystr option" where
  "first_candidate [] = None"
| "first_candidate (JStr s # cs) =
     (if py_strip s \<noteq> [] then Some (py_strip s) else first_candidate cs)"
| "first_candidate (c # cs) = first_candidate cs"

definition return_first :: "'f float_ops \<Rightarrow> 'f json \<Rightarrow> 'f json list \<Rightarrow> pystr" where
  "return_first fl payload candidates =
     (case first_candidate candidates of
        Some s \<Rightarrow> s
      | None \<Rightarrow> json_dumps fl payload)"

definition app_extract_user_query :: "'f float_ops \<Rightarrow> 'f json \<Rightarrow> pyexc + pystr" where
  "app_extract_user_query fl payload =
     bind_exc (py_get payload (ascii ''query'') JNull) (\<lambda>c1.
     bind_exc (py_get payload (ascii ''text'') JNull) (\<lambda>c2.
     bind_exc (py_get payload (ascii ''content'') JNull) (\<lambda>c3.
     bind_exc (nested_text fl payload ''message'') (\<lambda>c4.
     bind_exc (nested_text fl payload ''nlpResult'') (\<lambda>c5.
     Inr (return_first fl payload [c1, c2, c3, c4, c5]))))))"

definition qpp_extract_user_query :: "'f float_ops \<Rightarrow> 'f json \<Rightarrow> pyexc + pystr" where
  "qpp_extract_user_query fl body =
     bind_exc (py_get body (ascii ''query'') JNull) (\<lambda>c1.
     bind_exc (py_get body (ascii ''text'') JNull) (\<lambda>c2.
     bind_exc (py_get body (ascii ''content'') JNull) (\<lambda>c3.
     bind_exc (nested_text fl body ''nlpResult'') (\<lambda>c4.
     bind_exc (nested_text fl body ''message'') (\<lambda>c5.
     Inr (return_first fl body [c1, c2, c3, c4, c5]))))))"

section \<open>Libraries and configuration\<close>

text \<open>
  What the program takes from its libraries is collected in one record:
  \<^item> \<open>float_lib\<close>: the two operations on floating-point numbers;
  \<^item> \<open>hmac_hexdigest secret raw\<close>: the text of
    \<^verbatim>\<open>hmac.new(secret.encode("utf-8"), raw, hashlib.sha256).hexdigest()\<close>;
  \<^item> \<open>json_loads\<close>: the parser behind \<^verbatim>\<open>request.get_json\<close>, \<open>None\<close> when the
    bytes are not JSON;
  \<^item> \<open>requests_post\<close>: what \<^verbatim>\<open>requests.post\<close> does with one call: it raises (timeout,
    transport error; the text is \<^verbatim>\<open>str\<close> of the exception) or returns a response, whose
    \<^verbatim>\<open>json()\<close> in turn gives a value or raises.
  The module-level settings of each file are a record: \<^verbatim>\<open>app.py\<close> reads five of them
  from the environment (the three strings trimmed), \<^verbatim>\<open>qpp.py\<close> reads two and fixes the
  model, the timeout and both length limits in the code.
\<close>

record openai_call =
  call_url :: pystr
  call_authorization :: pystr
  call_model :: pystr
  call_messages :: "(pystr \<times> pystr) list"
  call_temperature :: pystr
  call_timeout :: int

record 'f http_response =
  status_code :: nat
  reason :: pystr
  url :: pystr
  json_result :: "pystr + 'f json"

datatype 'f post_result =
    Raised pystr
  | Returned "'f http_response"

record 'f libs =
  float_lib :: "'f float_ops"
  hmac_hexdigest :: "pystr \<Rightarrow> bytes \<Rightarrow> pystr"
  json_loads :: "bytes \<Rightarrow> 'f json option"
  requests_post :: "openai_call \<Rightarrow> 'f post_result"

record app_config =
  app_OPENAI_API_KEY :: pystr
  app_OPENAI_MODEL :: pystr
  app_WEBHOOK_SECRET :: pystr
  app_MAX_REPLY_LEN :: int
  app_REQUEST_TIMEOUT :: int

record qpp_config =
  qpp_OPENAI_API_KEY :: "pystr option"
  qpp_WEBHOOK_SECRET :: pystr

definition qpp_MODEL :: pystr where
  "qpp_MODEL = ascii ''gpt-4o-mini''"

section \<open>The signature verifier\<close>

text \<open>\<^verbatim>\<open>hmac.compare_digest\<close> on two \<^verbatim>\<open>str\<close> arguments accepts ASCII-only strings and
  raises \<^verbatim>\<open>TypeError\<close> otherwise.\<close>

definition compare_digest :: "pystr \<Rightarrow> pystr \<Rightarrow> pyexc + bool" where
  "compare_digest a b =
     (if list_all (\<lambda>c. c < 128) a \<and> list_all (\<lambda>c. c < 128) b then Inr (a = b)
      else Inl (TypeError
        (ascii ''comparing strings with non-ASCII characters is not supported'')))"

text \<open>The request headers are the list of name and value pairs, names as the program
  spells them; \<^verbatim>\<open>headers.get(name, default)\<close> takes the first pair of that name.\<close>

definition headers_get :: "(pystr \<times> pystr) list \<Rightarrow> pystr \<Rightarrow> pystr \<Rightarrow> pystr" where
  "headers_get headers k d = (case map_of headers k of None \<Rightarrow> d | Some v \<Rightarrow> v)"

definition app_verify_signature ::
  "app_config \<Rightarrow> 'f libs \<Rightarrow> bytes \<Rightarrow> (pystr \<times> pystr) list \<Rightarrow> pyexc + bool" where
  "app_verify_signature cfg lib raw_body headers =
     (if app_WEBHOOK_SECRET cfg = [] then Inr True
      else let recv_sig = headers_get headers (ascii ''X-Signature'') [] in
        if recv_sig = [] then Inr False
        else compare_digest (hmac_hexdigest lib (app_WEBHOOK_SECRET cfg) raw_body) recv_sig)"

definition qpp_verify_signature ::
  "qpp_config \<Rightarrow> 'f libs \<Rightarrow> bytes \<Rightarrow> (pystr \<times> pystr) list \<Rightarrow> pyexc + bool" where
  "qpp_verify_signature cfg lib raw_body headers =
     (if qpp_WEBHOOK_SECRET cfg = [] then Inr True
      else let sig = headers_get headers (ascii ''X-Signature'') [] in
        if sig = [] then Inr False
        else compare_digest (hmac_hexdigest lib (qpp_WEBHOOK_SECRET cfg) raw_body) sig)"

section \<open>The completion client\<close>

definition raise_for_status :: "'f http_response \<Rightarrow> pyexc + unit" where
  "raise_for_status r =
     (if 400 \<le> status_code r \<and> status_code r < 500 then
        Inl (HTTPError (str_nat (status_code r) @ ascii '' Client Error: '' @ reason r
               @ ascii '' for url: '' @ url r))
      else if 500 \<le> status_code r \<and> status_code r < 600 then
        Inl (HTTPError (str_nat (status_code r) @ ascii '' Server Error: '' @ reason r
               @ ascii '' for url: '' @ url r))
      else Inr ())"

text \<open>\<^verbatim>\<open>v[0]\<close> and \<^verbatim>\<open>v.strip()\<close> on a parsed JSON value.\<close>

fun py_index0 :: "'f json \<Rightarrow> pyexc + 'f json" where
  "py_index0 (JArr []) = Inl (IndexError (ascii ''list index out of range''))"
| "py_index0 (JArr (x # xs)) = Inr x"
| "py_index0 (JStr []) = Inl (IndexError (ascii ''string index out of range''))"
| "py_index0 (JStr (c # cs)) = Inr (JStr [c])"
| "py_index0 (JObj kvs) = Inl (KeyError (ascii ''0''))"
| "py_index0 v =
     Inl (TypeError (ascii [CHR 0x27] @ py_type_name v @ ascii [CHR 0x27]
            @ ascii '' object is not subscriptable''))"

fun py_strip_method :: "'f json \<Rightarrow> pyexc + pystr" where
  "py_strip_method (JStr s) = Inr (py_strip s)"
| "py_strip_method v = Inl (no_attribute (py_type_name v) ''strip'')"

text \<open>
  \<^verbatim>\<open>resp.get("choices", [{}])[0].get("message", {}).get("content", "").strip()\<close>
\<close>

definition first_choice_content :: "'f json \<Rightarrow> pyexc + pystr" where
  "first_choice_content resp =
     bind_exc (py_get resp (ascii ''choices'') (JArr [JObj []])) (\<lambda>choices.
     bind_exc (py_index0 choices) (\<lambda>choice.
     bind_exc (py_get choice (ascii ''message'') (JObj [])) (\<lambda>message.
     bind_exc (py_get message (ascii ''content'') (JStr [])) (\<lambda>content.
     py_strip_method content))))"

definition no_reply :: pystr where
  "no_reply = [0xFF08, 0x65E0, 0x56DE, 0x590D, 0xFF09]"

definition call_failed :: pystr where
  "call_failed = [0x8C03, 0x7528, 0x5927, 0x6A21, 0x578B, 0x5931, 0x8D25, 0xFF1A]"

definition you_said :: pystr where
  "you_said = [0x4F60, 0x8BF4, 0x7684, 0x662F, 0xFF1A]"

definition system_prompt :: pystr where
  "system_prompt =
     [0x4F60, 0x662F, 0x5FAE, 0x4FE1, 0x91CC, 0x7684, 0x667A, 0x80FD, 0x52A9, 0x624B, 0xFF0C,
      0x8BF7, 0x7528, 0x7B80, 0x6D01, 0x4E2D, 0x6587, 0x56DE, 0x7B54, 0x3002]"

text \<open>The body of the \<^verbatim>\<open>try\<close> block: the request, \<^verbatim>\<open>raise_for_status\<close>,
  \<^verbatim>\<open>r.json()\<close> and the walk to the first choice, with \<^verbatim>\<open>or\<close> supplying the
  placeholder for an empty answer.\<close>

definition try_completion :: "'f libs \<Rightarrow> openai_call \<Rightarrow> pyexc + pystr" where
  "try_completion lib call =
     (case requests_post lib call of
        Raised m \<Rightarrow> Inl (RequestException m)
      | Returned r \<Rightarrow>
          bind_exc (raise_for_status r) (\<lambda>u.
          bind_exc (case json_result r of Inl m \<Rightarrow> Inl (JSONDecodeError m) | Inr resp \<Rightarrow> Inr resp)
            (\<lambda>resp.
          bind_exc (first_choice_content resp) (\<lambda>ans.
          Inr (if ans \<noteq> [] then ans else no_reply)))))"

text \<open>\<^verbatim>\<open>except Exception as e: return f"...{e}"\<close>: every exception of the block becomes
  an answer.\<close>

definition catch_completion :: "pyexc + pystr \<Rightarrow> pystr" where
  "catch_completion r = (case r of Inl e \<Rightarrow> call_failed @ exc_str e | Inr ans \<Rightarrow> ans)"

definition openai_url :: pystr where
  "openai_url = ascii ''https://api.openai.com/v1/chat/completions''"

definition app_openai_call :: "app_config \<Rightarrow> pystr \<Rightarrow> openai_call" where
  "app_openai_call cfg prompt =
     \<lparr>call_url = openai_url,
      call_authorization = ascii ''Bearer '' @ app_OPENAI_API_KEY cfg,
      call_model = app_OPENAI_MODEL cfg,
      call_messages = [(ascii ''system'', system_prompt), (ascii ''user'', prompt)],
      call_temperature = ascii ''0.3'',
      call_timeout = app_REQUEST_TIMEOUT cfg\<rparr>"

text \<open>The answer, and the outbound calls made to produce it.\<close>

definition app_ask_openai :: "app_config \<Rightarrow> 'f libs \<Rightarrow> pystr \<Rightarrow> pystr \<times> openai_call list" where
  "app_ask_openai cfg lib prompt =
     (if app_OPENAI_API_KEY cfg = [] then (you_said @ prompt, [])
      else (catch_completion (try_completion lib (app_openai_call cfg prompt)),
            [app_openai_call cfg prompt]))"

definition qpp_openai_call :: "qpp_config \<Rightarrow> pystr \<Rightarrow> openai_call" where
  "qpp_openai_call cfg prompt =
     \<lparr>call_url = openai_url,
      call_authorization =
        ascii ''Bearer '' @ (case qpp_OPENAI_API_KEY cfg of None \<Rightarrow> ascii ''None'' | Some k \<Rightarrow> k),
      call_model = qpp_MODEL,
      call_messages = [(ascii ''system'', system_prompt), (ascii ''user'', prompt)],
      call_temperature = ascii ''0.3'',
      call_timeout = 30\<rparr>"

definition qpp_ask_openai :: "qpp_config \<Rightarrow> 'f libs \<Rightarrow> pystr \<Rightarrow> pystr \<times> openai_call list" where
  "qpp_ask_openai cfg lib prompt =
     (catch_completion (try_completion lib (qpp_openai_call cfg prompt)),
      [qpp_openai_call cfg prompt])"

section \<open>The callback handler\<close>

text \<open>
  Flask's request object reads the body from a stream. \<^verbatim>\<open>get_data\<close> returns the cached
  bytes when there are any; otherwise it reads the stream to its end and stores what it
  read only when \<^verbatim>\<open>cache\<close> is true. \<^verbatim>\<open>get_json(force=True)\<close> parses the bytes that
  \<^verbatim>\<open>get_data(cache=True)\<close> gives it; when parsing fails it returns \<^verbatim>\<open>None\<close> under
  \<^verbatim>\<open>silent=True\<close> and raises \<^verbatim>\<open>BadRequest\<close> otherwise.
\<close>

record request =
  stream :: bytes
  cached_data :: "bytes option"
  headers :: "(pystr \<times> pystr) list"

definition get_data :: "bool \<Rightarrow> request \<Rightarrow> bytes \<times> request" where
  "get_data cache req =
     (case cached_data req of
        Some rv \<Rightarrow> (rv, req)
      | None \<Rightarrow>
          (stream req,
           req\<lparr>stream := [], cached_data := (if cache then Some (stream req) else None)\<rparr>))"

definition get_json :: "bool \<Rightarrow> 'f libs \<Rightarrow> request \<Rightarrow> (pyexc + 'f json) \<times> request" where
  "get_json silent lib req =
     (let (data, req') = get_data True req in
      case json_loads lib data of
        Some rv \<Rightarrow> (Inr rv, req')
      | None \<Rightarrow>
          (if silent then (Inr JNull, req')
           else (Inl (BadRequest (ascii ''Failed to decode JSON object'')), req')))"

record 'f response =
  status :: nat
  body :: "'f json"

definition invalid_signature :: "'f response" where
  "invalid_signature =
     \<lparr>status = 401,
      body = JObj [(ascii ''code'', JInt 401), (ascii ''msg'', JStr (ascii ''invalid signature''))]\<rparr>"

definition no_input :: pystr where
  "no_input = [0xFF08, 0x6CA1, 0x6709, 0x62FF, 0x5230, 0x8F93, 0x5165, 0xFF09]"

definition not_configured :: pystr where
  "not_configured = [0x672A, 0x914D, 0x7F6E] @ ascii '' OPENAI_API_KEY''"

text \<open>
  The handler returns the response (or the exception that leaves it, which Flask turns
  into HTTP 500) and the outbound calls it made. Logging is not modelled.
\<close>

definition app_wechat_callback ::
  "app_config \<Rightarrow> 'f libs \<Rightarrow> request \<Rightarrow> (pyexc + 'f response) \<times> openai_call list" where
  "app_wechat_callback cfg lib req =
     (let (raw, req1) = get_data False req in
      (case app_verify_signature cfg lib raw (headers req1) of
         Inl e \<Rightarrow> (Inl e, [])
       | Inr ok \<Rightarrow>
           (if \<not> ok then (Inr invalid_signature, [])
            else
              (let (parsed, req2) = get_json True lib req1;
                   body = (case parsed of
                             Inl e \<Rightarrow> JObj []
                           | Inr v \<Rightarrow> py_or (float_lib lib) v (JObj []))
               in (case app_extract_user_query (float_lib lib) body of
                     Inl e \<Rightarrow> (Inl e, [])
                   | Inr s \<Rightarrow>
                       (let user_query = py_slice_to 2000 s in
                        if user_query = [] then
                          (Inr \<lparr>status = 200, body = JObj [(ascii ''text'', JStr no_input)]\<rparr>,
                           [])
                        else
                          (let (answer, calls) = app_ask_openai cfg lib user_query;
                               answer' = py_slice_to (app_MAX_REPLY_LEN cfg) answer
                           in (Inr \<lparr>status = 200,
                                     body = JObj [(ascii ''text'', JStr answer')]\<rparr>,
                               calls))))))))"

definition qpp_wechat_callback ::
  "qpp_config \<Rightarrow> 'f libs \<Rightarrow> request \<Rightarrow> (pyexc + 'f response) \<times> openai_call list" where
  "qpp_wechat_callback cfg lib req =
     (let (raw, req1) = get_data True req in
      (case qpp_verify_signature cfg lib raw (headers req1) of
         Inl e \<Rightarrow> (Inl e, [])
       | Inr ok \<Rightarrow>
           (if \<not> ok then (Inr invalid_signature, [])
            else
              (let (parsed, req2) = get_json False lib req1 in
               (case parsed of
                  Inl e \<Rightarrow>
                    (Inr \<lparr>status = 400,
                          body = JObj [(ascii ''code'', JInt 400),
                                       (ascii ''msg'', JStr (ascii ''bad json''))]\<rparr>, [])
                | Inr v \<Rightarrow>
                    (case qpp_extract_user_query (float_lib lib)
                            (py_or (float_lib lib) v (JObj [])) of
                       Inl e \<Rightarrow> (Inl e, [])
                     | Inr s \<Rightarrow>
                         (let user_query = py_slice_to 2000 s in
                          if user_query = [] then
                            (Inr \<lparr>status = 400,
                                  body = JObj [(ascii ''code'', JInt 400),
                                               (ascii ''msg'', JStr (ascii ''empty query''))]\<rparr>,
                             [])
                          else
                            (let (answer, calls) =
                                   (if qpp_OPENAI_API_KEY cfg = None
                                       \<or> qpp_OPENAI_API_KEY cfg = Some []
                                    then (not_configured, [])
                                    else (let (a, cs) = qpp_ask_openai cfg lib user_query
                                          in (py_slice_to 1500 a, cs)))
                             in (Inr \<lparr>status = 200,
                                       body = JObj [(ascii ''text'', JStr answer),
                                                    (ascii ''meta'',
                                                     JObj [(ascii ''echo'', JStr user_query),
                                                           (ascii ''model'', JStr qpp_MODEL)])]\<rparr>,
                                 calls)))))))))"

section \<open>The candidate locations, as the specification lists them\<close>

text \<open>
  The specification reads a nested location \<^verbatim>\<open>parent.text\<close> as absent when the parent
  is missing or is not an object. \<open>lookup_text\<close> is that reading, \<open>claimed_order\<close> the
  five locations in the order the specification gives, and \<open>qpp_order\<close> the order of
  \<^verbatim>\<open>qpp.py\<close>. A candidate qualifies when it is a string that is not empty after
  trimming. \<open>parent_ok\<close> holds when the parent is missing, is an object, or is a value
  Python counts as false (\<^verbatim>\<open>null\<close>, \<^verbatim>\<open>false\<close>, \<^verbatim>\<open>0\<close>, \<^verbatim>\<open>""\<close>, \<^verbatim>\<open>[]\<close>).
\<close>

definition lookup_text :: "(pystr \<times> 'f json) list \<Rightarrow> string \<Rightarrow> 'f json" where
  "lookup_text kvs parent =
     (case dict_get kvs (ascii parent) JNull of
        JObj m \<Rightarrow> dict_get m (ascii ''text'') JNull
      | _ \<Rightarrow> JNull)"

definition parent_ok :: "'f float_ops \<Rightarrow> (pystr \<times> 'f json) list \<Rightarrow> string \<Rightarrow> bool" where
  "parent_ok fl kvs parent =
     (case dict_get kvs (ascii parent) JNull of
        JObj m \<Rightarrow> True
      | v \<Rightarrow> \<not> py_truthy fl v)"

fun qualifies :: "'f json \<Rightarrow> bool" where
  "qualifies (JStr s) = (py_strip s \<noteq> [])"
| "qualifies v = False"

definition claimed_order :: "(pystr \<times> 'f json) list \<Rightarrow> 'f json list" where
  "claimed_order kvs =
     [dict_get kvs (ascii ''query'') JNull, dict_get kvs (ascii ''text'') JNull,
      dict_get kvs (ascii ''content'') JNull, lookup_text kvs ''message'',
      lookup_text kvs ''nlpResult'']"

definition qpp_order :: "(pystr \<times> 'f json) list \<Rightarrow> 'f json list" where
  "qpp_order kvs =
     [dict_get kvs (ascii ''query'') JNull, dict_get kvs (ascii ''text'') JNull,
      dict_get kvs (ascii ''content'') JNull, lookup_text kvs ''nlpResult'',
      lookup_text kvs ''message'']"

text \<open>\<^verbatim>\<open>sub in s\<close> on strings.\<close>

fun py_contains :: "pystr \<Rightarrow> pystr \<Rightarrow> bool" where
  "py_contains sub [] = (sub = [])"
| "py_contains sub (c # cs) = (take (length sub) (c # cs) = sub \<or> py_contains sub cs)"

section \<open>Concrete instances\<close>

text \<open>
  A library instance for evaluating the program on explicit inputs: payloads without
  floating-point numbers, a parser that knows the bytes of \<^verbatim>\<open>{"text":"hello"}\<close>, a
  digest that is the same 64 hexadecimal zeros for every message, and a completion
  endpoint that times out.
\<close>

definition no_floats :: "unit float_ops" where
  "no_floats = \<lparr>float_is_zero = (\<lambda>x. True), float_repr = (\<lambda>x. ascii ''0.0'')\<rparr>"

definition hello_bytes :: bytes where
  "hello_bytes = map of_char ''{\"text\":\"hello\"}''"

definition hello_payload :: "'f json" where
  "hello_payload = JObj [(ascii ''text'', JStr (ascii ''hello''))]"

definition demo_lib :: "unit libs" where
  "demo_lib =
     \<lparr>float_lib = no_floats,
      hmac_hexdigest = (\<lambda>secret raw. replicate 64 48),
      json_loads = (\<lambda>raw. if raw = hello_bytes then Some hello_payload else None),
      requests_post = (\<lambda>call. Raised (ascii ''timed out''))\<rparr>"

text \<open>Two more endpoints: one that answers with status 500 and a reason phrase of 1500
  characters, and one that answers with status 302 and a well-formed completion.\<close>

definition server_error_response :: "unit http_response" where
  "server_error_response =
     \<lparr>status_code = 500, reason = replicate 1500 120, url = openai_url,
      json_result = Inl []\<rparr>"

definition long_error_lib :: "unit libs" where
  "long_error_lib = demo_lib\<lparr>requests_post := (\<lambda>call. Returned server_error_response)\<rparr>"

definition found_response :: "unit http_response" where
  "found_response =
     \<lparr>status_code = 302, reason = ascii ''Found'', url = openai_url,
      json_result =
        Inr (JObj [(ascii ''choices'',
               JArr [JObj [(ascii ''message'',
                      JObj [(ascii ''content'', JStr (ascii ''hi''))])]])])\<rparr>"

definition redirect_lib :: "unit libs" where
  "redirect_lib = demo_lib\<lparr>requests_post := (\<lambda>call. Returned found_response)\<rparr>"

text \<open>A parser that reads every body as an object whose \<^verbatim>\<open>text\<close> has 2001
  characters.\<close>

definition long_query_lib :: "unit libs" where
  "long_query_lib =
     demo_lib\<lparr>json_loads :=
       (\<lambda>raw. Some (JObj [(ascii ''text'', JStr (replicate 2001 97))]))\<rparr>"

definition fresh_request :: "bytes \<Rightarrow> (pystr \<times> pystr) list \<Rightarrow> request" where
  "fresh_request raw hdrs = \<lparr>stream = raw, cached_data = None, headers = hdrs\<rparr>"

text \<open>The configuration each file computes when no environment variable is set.\<close>

definition app_default_config :: app_config where
  "app_default_config =
     \<lparr>app_OPENAI_API_KEY = [], app_OPENAI_MODEL = ascii ''gpt-4o-mini'',
      app_WEBHOOK_SECRET = [], app_MAX_REPLY_LEN = 1500, app_REQUEST_TIMEOUT = 30\<rparr>"

definition qpp_default_config :: qpp_config where
  "qpp_default_config = \<lparr>qpp_OPENAI_API_KEY = None, qpp_WEBHOOK_SECRET = []\<rparr>"

text \<open>Intermediate values of the handlers, named for the statements below: the payload
  \<^verbatim>\<open>app.py\<close> hands to the extractor, after \<^verbatim>\<open>get_data(cache=False)\<close> and a silent
  \<^verbatim>\<open>get_json\<close>; the outcome of \<^verbatim>\<open>get_json\<close> in \<^verbatim>\<open>qpp.py\<close>, after a caching
  \<^verbatim>\<open>get_data\<close>; and the two 400 responses of \<^verbatim>\<open>qpp.py\<close>.\<close>

definition app_payload :: "'f libs \<Rightarrow> request \<Rightarrow> 'f json" where
  "app_payload lib req =
     (case fst (get_json True lib (snd (get_data False req))) of
        Inl e \<Rightarrow> JObj []
      | Inr v \<Rightarrow> py_or (float_lib lib) v (JObj []))"

definition qpp_parsed :: "'f libs \<Rightarrow> request \<Rightarrow> pyexc + 'f json" where
  "qpp_parsed lib req = fst (get_json False lib (snd (get_data True req)))"

definition bad_json :: "'f response" where
  "bad_json =
     \<lparr>status = 400,
      body = JObj [(ascii ''code'', JInt 400), (ascii ''msg'', JStr (ascii ''bad json''))]\<rparr>"

definition empty_query :: "'f response" where
  "empty_query =
     \<lparr>status = 400,
      body = JObj [(ascii ''code'', JInt 400), (ascii ''msg'', JStr (ascii ''empty query''))]\<rparr>"

text \<open>The answer and the outbound calls of the last step of \<^verbatim>\<open>qpp.py\<close>'s handler:
  the fixed message when no credential is configured, the completion cut to 1500
  characters otherwise.\<close>

definition qpp_answer :: "qpp_config \<Rightarrow> 'f libs \<Rightarrow> pystr \<Rightarrow> pystr \<times> openai_call list" where
  "qpp_answer cfg lib q =
     (if qpp_OPENAI_API_KEY cfg = None \<or> qpp_OPENAI_API_KEY cfg = Some [] then (not_configured, [])
      else (py_slice_to 1500 (fst (qpp_ask_openai cfg lib q)), snd (qpp_ask_openai cfg lib q)))"

section \<open>Properties of the query extractor\<close>

lemma nested_text_ok:
  "parent_ok fl kvs parent \<Longrightarrow> nested_text fl (JObj kvs) parent = Inr (lookup_text kvs parent)"
  by (cases "dict_get kvs (ascii parent) JNull")
     (auto simp: parent_ok_def nested_text_def lookup_text_def py_or_def dict_get_def)

lemma first_candidate_find:
  "first_candidate cs =
     (case find qualifies cs of Some (JStr s) \<Rightarrow> Some (py_strip s) | _ \<Rightarrow> None)"
  by (induction cs rule: first_candidate.induct) auto

lemma app_extract_ok:
  "parent_ok fl kvs ''message'' \<Longrightarrow> parent_ok fl kvs ''nlpResult'' \<Longrightarrow>
   app_extract_user_query fl (JObj kvs) = Inr (return_first fl (JObj kvs) (claimed_order kvs))"
  by (simp add: app_extract_user_query_def nested_text_ok claimed_order_def)

lemma qpp_extract_ok:
  "parent_ok fl kvs ''message'' \<Longrightarrow> parent_ok fl kvs ''nlpResult'' \<Longrightarrow>
   qpp_extract_user_query fl (JObj kvs) = Inr (return_first fl (JObj kvs) (qpp_order kvs))"
  by (simp add: qpp_extract_user_query_def nested_text_ok qpp_order_def)

lemma first_candidate_nonempty: "first_candidate cs = Some s \<Longrightarrow> s \<noteq> []"
  by (induction cs rule: first_candidate.induct) (auto split: if_splits)

lemma json_dumps_object_nonempty: "json_dumps fl (JObj kvs) \<noteq> []"
  by (simp add: ascii_def)

lemma return_first_nonempty: "return_first fl (JObj kvs) cs \<noteq> []"
  using first_candidate_nonempty [of cs]
  by (cases "first_candidate cs")
     (simp_all add: return_first_def json_dumps_object_nonempty del: json_dumps.simps)

lemma app_extract_nonempty: "app_extract_user_query fl payload = Inr s \<Longrightarrow> s \<noteq> []"
proof -
  assume r: "app_extract_user_query fl payload = Inr s"
  then obtain kvs where p: "payload = JObj kvs"
    by (cases payload) (simp_all add: app_extract_user_query_def)
  from r show ?thesis unfolding p app_extract_user_query_def
    by (cases "nested_text fl (JObj kvs) ''message''"; cases "nested_text fl (JObj kvs) ''nlpResult''")
       (auto simp: return_first_nonempty simp del: json_dumps.simps)
qed

lemma qpp_extract_nonempty: "qpp_extract_user_query fl payload = Inr s \<Longrightarrow> s \<noteq> []"
proof -
  assume r: "qpp_extract_user_query fl payload = Inr s"
  then obtain kvs where p: "payload = JObj kvs"
    by (cases payload) (simp_all add: qpp_extract_user_query_def)
  from r show ?thesis unfolding p qpp_extract_user_query_def
    by (cases "nested_text fl (JObj kvs) ''message''"; cases "nested_text fl (JObj kvs) ''nlpResult''")
       (auto simp: return_first_nonempty simp del: json_dumps.simps)
qed

lemma slice_2000_nonempty: "s \<noteq> [] \<Longrightarrow> py_slice_to 2000 s \<noteq> []"
  by (simp add: py_slice_to_def)

lemma slice_nat: "py_slice_to (int n) s = take n s"
  by (simp add: py_slice_to_def)

text \<open>When no candidate qualifies and both parents are missing, false or objects, the
  extractor returns the serialised payload.\<close>

lemma extract_fallback:
  assumes "parent_ok fl kvs ''message''" and "parent_ok fl kvs ''nlpResult''"
    and "find qualifies (claimed_order kvs) = None"
  shows "app_extract_user_query fl (JObj kvs) = Inr (json_dumps fl (JObj kvs))"
    and "qpp_extract_user_query fl (JObj kvs) = Inr (json_dumps fl (JObj kvs))"
proof -
  show "app_extract_user_query fl (JObj kvs) = Inr (json_dumps fl (JObj kvs))"
    using assms
    by (simp add: app_extract_ok return_first_def first_candidate_find del: json_dumps.simps)
  have "find qualifies (qpp_order kvs) = None"
    using assms(3) unfolding find_None_iff claimed_order_def qpp_order_def by auto
  then show "qpp_extract_user_query fl (JObj kvs) = Inr (json_dumps fl (JObj kvs))"
    using assms(1,2)
    by (simp add: qpp_extract_ok return_first_def first_candidate_find del: json_dumps.simps)
qed

section \<open>Claims about the query extractor\<close>

text \<open>The definitions unfolded when the program is evaluated on an explicit input.\<close>

lemmas eval_defs = ascii_def dict_get_def lookup_text_def parent_ok_def claimed_order_def qpp_order_def
  py_strip_def py_isspace_def no_floats_def py_or_def

text \<open>
  Claim C1 (as amended). For every object payload whose \<^verbatim>\<open>message\<close> and
  \<^verbatim>\<open>nlpResult\<close> entries are each missing, false in Python's sense, or objects: when the
  first qualifying candidate in the order \<^verbatim>\<open>query\<close>, \<^verbatim>\<open>text\<close>, \<^verbatim>\<open>content\<close>,
  \<^verbatim>\<open>message.text\<close>, \<^verbatim>\<open>nlpResult.text\<close> is the string \<open>s\<close>, the extractor of
  \<^verbatim>\<open>app.py\<close> returns \<open>s\<close> trimmed; the extractor of \<^verbatim>\<open>qpp.py\<close> does the same for
  the order \<^verbatim>\<open>query\<close>, \<^verbatim>\<open>text\<close>, \<^verbatim>\<open>content\<close>, \<^verbatim>\<open>nlpResult.text\<close>,
  \<^verbatim>\<open>message.text\<close>.
\<close>

theorem first_candidate_wins:
  assumes "parent_ok fl kvs ''message''" and "parent_ok fl kvs ''nlpResult''"
  shows "(find qualifies (claimed_order kvs) = Some (JStr s) \<longrightarrow>
            app_extract_user_query fl (JObj kvs) = Inr (py_strip s)) \<and>
         (find qualifies (qpp_order kvs) = Some (JStr s) \<longrightarrow>
            qpp_extract_user_query fl (JObj kvs) = Inr (py_strip s))"
proof -
  have app: "app_extract_user_query fl (JObj kvs)
               = Inr (return_first fl (JObj kvs) (claimed_order kvs))"
    using assms by (rule app_extract_ok)
  have qpp: "qpp_extract_user_query fl (JObj kvs)
               = Inr (return_first fl (JObj kvs) (qpp_order kvs))"
    using assms by (rule qpp_extract_ok)
  have pick: "return_first fl p cs = py_strip s" if "find qualifies cs = Some (JStr s)"
    for p and cs :: "'a json list"
    using that by (simp add: return_first_def first_candidate_find)
  show ?thesis
    by (simp add: app qpp pick)
qed

text \<open>The theorem at a payload with a blank \<^verbatim>\<open>query\<close> and both nested texts: the two
  files pick different ones.\<close>

theorem first_candidate_wins_witness:
  "app_extract_user_query no_floats
     (JObj [(ascii ''query'', JStr (ascii ''  '')),
            (ascii ''message'', JObj [(ascii ''text'', JStr (ascii '' hi ''))]),
            (ascii ''nlpResult'', JObj [(ascii ''text'', JStr (ascii ''yo''))])])
     = Inr (ascii ''hi'') \<and>
   qpp_extract_user_query no_floats
     (JObj [(ascii ''query'', JStr (ascii ''  '')),
            (ascii ''message'', JObj [(ascii ''text'', JStr (ascii '' hi ''))]),
            (ascii ''nlpResult'', JObj [(ascii ''text'', JStr (ascii ''yo''))])])
     = Inr (ascii ''yo'')"
  using first_candidate_wins [of no_floats
      "[(ascii ''query'', JStr (ascii ''  '')),
        (ascii ''message'', JObj [(ascii ''text'', JStr (ascii '' hi ''))]),
        (ascii ''nlpResult'', JObj [(ascii ''text'', JStr (ascii ''yo''))])]" "ascii '' hi ''"]
    first_candidate_wins [of no_floats
      "[(ascii ''query'', JStr (ascii ''  '')),
        (ascii ''message'', JObj [(ascii ''text'', JStr (ascii '' hi ''))]),
        (ascii ''nlpResult'', JObj [(ascii ''text'', JStr (ascii ''yo''))])]" "ascii ''yo''"]
  by (simp add: eval_defs)

text \<open>The claim as stated, with \<^verbatim>\<open>message.text\<close> ahead of \<^verbatim>\<open>nlpResult.text\<close>, fails
  for \<^verbatim>\<open>qpp.py\<close>: on \<^verbatim>\<open>{"message": {"text": "a"}, "nlpResult": {"text": "b"}}\<close> the
  first qualifying candidate in the claimed order is \<^verbatim>\<open>"a"\<close>, and \<^verbatim>\<open>qpp.py\<close> returns
  \<^verbatim>\<open>"b"\<close>.\<close>

theorem qpp_order_counterexample:
  "find qualifies
     (claimed_order [(ascii ''message'', JObj [(ascii ''text'', JStr (ascii ''a''))]),
                     (ascii ''nlpResult'', JObj [(ascii ''text'', JStr (ascii ''b''))])])
     = Some (JStr (ascii ''a'') :: unit json) \<and>
   qpp_extract_user_query no_floats
     (JObj [(ascii ''message'', JObj [(ascii ''text'', JStr (ascii ''a''))]),
            (ascii ''nlpResult'', JObj [(ascii ''text'', JStr (ascii ''b''))])])
     = Inr (ascii ''b'') \<and>
   ascii ''b'' \<noteq> py_strip (ascii ''a'')"
  by (simp add: eval_defs qpp_extract_user_query_def nested_text_def return_first_def)

text \<open>
  Claim C2. The nested lookups for \<^verbatim>\<open>message.text\<close> and \<^verbatim>\<open>nlpResult.text\<close> are claimed
  never to raise. \<^verbatim>\<open>(payload.get("message") or {})\<close> replaces a missing or false parent
  by an empty dict, but a parent that is true and not a dict is kept, and \<^verbatim>\<open>.get\<close> on
  it raises: on the payload \<^verbatim>\<open>{"message": "hello"}\<close> both extractors leave with
  \<^verbatim>\<open>AttributeError: 'str' object has no attribute 'get'\<close>.
\<close>

theorem nested_lookup_raises:
  "app_extract_user_query fl (JObj [(ascii ''message'', JStr (ascii ''hello''))])
     = Inl (no_attribute (ascii ''str'') ''get'') \<and>
   qpp_extract_user_query fl (JObj [(ascii ''message'', JStr (ascii ''hello''))])
     = Inl (no_attribute (ascii ''str'') ''get'')"
  by (simp add: app_extract_user_query_def qpp_extract_user_query_def nested_text_def
        dict_get_def py_or_def ascii_def)

text \<open>
  Claim C6. The payload \<^verbatim>\<open>{"message": 5}\<close> has no qualifying candidate at any of the
  five locations, and its serialisation is \<^verbatim>\<open>{"message": 5}\<close>; both extractors raise
  \<^verbatim>\<open>AttributeError\<close> on it instead of returning that text.
\<close>

theorem fallback_raises:
  "find qualifies (claimed_order [(ascii ''message'', JInt 5)]) = (None :: 'f json option) \<and>
   json_dumps fl (JObj [(ascii ''message'', JInt 5)])
     = ascii ''{'' @ [0x22] @ ascii ''message'' @ [0x22] @ ascii '': 5}'' \<and>
   app_extract_user_query fl (JObj [(ascii ''message'', JInt 5)])
     = Inl (no_attribute (ascii ''int'') ''get'') \<and>
   qpp_extract_user_query fl (JObj [(ascii ''message'', JInt 5)])
     = Inl (no_attribute (ascii ''int'') ''get'')"
  by (simp add: app_extract_user_query_def qpp_extract_user_query_def nested_text_def
        dict_get_def py_or_def ascii_def claimed_order_def lookup_text_def
        encode_basestring_def escape_char_def str_int_def str_nat.simps)

text \<open>
  Claim C10. The extractor is claimed to return a non-empty string for every object
  payload. On \<^verbatim>\<open>{"nlpResult": [0]}\<close> both extractors raise \<^verbatim>\<open>AttributeError\<close> and
  return nothing.
\<close>

theorem extractor_raises_on_list_parent:
  "app_extract_user_query fl (JObj [(ascii ''nlpResult'', JArr [JInt 0])])
     = Inl (no_attribute (ascii ''list'') ''get'') \<and>
   qpp_extract_user_query fl (JObj [(ascii ''nlpResult'', JArr [JInt 0])])
     = Inl (no_attribute (ascii ''list'') ''get'')"
  by (simp add: app_extract_user_query_def qpp_extract_user_query_def nested_text_def
        dict_get_def py_or_def ascii_def)

section \<open>The handler, step by step\<close>


lemma headers_get_data [simp]: "headers (snd (get_data c req)) = headers req"
  by (simp add: get_data_def split: option.splits)

lemma verify_lib_update [simp]:
  "app_verify_signature cfg (lib\<lparr>json_loads := jl, requests_post := rp\<rparr>) raw h = app_verify_signature cfg lib raw h"
  "qpp_verify_signature cfg' (lib\<lparr>json_loads := jl, requests_post := rp\<rparr>) raw h = qpp_verify_signature cfg' lib raw h"
  by (simp_all add: app_verify_signature_def qpp_verify_signature_def Let_def)

lemma app_callback_unfold:
  "app_wechat_callback cfg lib req =
     (case app_verify_signature cfg lib (fst (get_data False req)) (headers req) of
        Inl e \<Rightarrow> (Inl e, [])
      | Inr ok \<Rightarrow>
          (if \<not> ok then (Inr invalid_signature, [])
           else (case app_extract_user_query (float_lib lib) (app_payload lib req) of
                 Inl e \<Rightarrow> (Inl e, [])
               | Inr s \<Rightarrow>
                   (Inr \<lparr>status = 200,
                         body = JObj [(ascii ''text'',
                           JStr (py_slice_to (app_MAX_REPLY_LEN cfg)
                                  (fst (app_ask_openai cfg lib (py_slice_to 2000 s)))))]\<rparr>,
                    snd (app_ask_openai cfg lib (py_slice_to 2000 s))))))"
proof -
  have ne: "py_slice_to 2000 s \<noteq> []"
    if "app_extract_user_query (float_lib lib) (app_payload lib req) = Inr s" for s
    using that by (intro slice_2000_nonempty) (rule app_extract_nonempty)
  show ?thesis
    unfolding app_wechat_callback_def
    using ne
    by (simp add: Let_def split_beta app_payload_def [symmetric] split: sum.splits)
qed

lemma qpp_callback_unfold:
  "qpp_wechat_callback cfg lib req =
     (case qpp_verify_signature cfg lib (fst (get_data True req)) (headers req) of
        Inl e \<Rightarrow> (Inl e, [])
      | Inr ok \<Rightarrow>
          (if \<not> ok then (Inr invalid_signature, [])
           else (case qpp_parsed lib req of
                 Inl e \<Rightarrow> (Inr bad_json, [])
               | Inr v \<Rightarrow>
                  (case qpp_extract_user_query (float_lib lib) (py_or (float_lib lib) v (JObj [])) of
                     Inl e \<Rightarrow> (Inl e, [])
                   | Inr s \<Rightarrow>
                       (Inr \<lparr>status = 200,
                             body = JObj [(ascii ''text'', JStr (fst (qpp_answer cfg lib (py_slice_to 2000 s)))),
                                          (ascii ''meta'',
                                           JObj [(ascii ''echo'', JStr (py_slice_to 2000 s)),
                                                 (ascii ''model'', JStr qpp_MODEL)])]\<rparr>,
                        snd (qpp_answer cfg lib (py_slice_to 2000 s)))))))"
proof -
  have ne: "py_slice_to 2000 s \<noteq> []"
    if "qpp_extract_user_query (float_lib lib) p = Inr s" for s p
    using that by (intro slice_2000_nonempty) (rule qpp_extract_nonempty)
  show ?thesis
    unfolding qpp_wechat_callback_def
    using ne
    by (auto simp: Let_def split_beta qpp_parsed_def [symmetric] qpp_answer_def bad_json_def split: sum.splits)
qed

lemma app_payload_fresh:
  "json_loads lib [] = None \<Longrightarrow> app_payload lib (fresh_request raw hdrs) = JObj []"
  by (simp add: app_payload_def get_data_def get_json_def fresh_request_def py_or_def)

lemma qpp_parsed_fresh:
  "qpp_parsed lib (fresh_request raw hdrs) =
     (case json_loads lib raw of
        Some v \<Rightarrow> Inr v
      | None \<Rightarrow> Inl (BadRequest (ascii ''Failed to decode JSON object'')))"
  by (simp add: qpp_parsed_def get_data_def get_json_def fresh_request_def split: option.splits)

lemma extract_empty_object:
  "app_extract_user_query fl (JObj []) = Inr (ascii ''{}'')"
  "qpp_extract_user_query fl (JObj []) = Inr (ascii ''{}'')"
  by (simp_all add: app_extract_user_query_def qpp_extract_user_query_def nested_text_def
        dict_get_def py_or_def return_first_def ascii_def)

lemma extract_hello:
  "app_extract_user_query fl (JObj [(ascii ''text'', JStr (ascii ''hello''))])
     = Inr (ascii ''hello'')"
  "qpp_extract_user_query fl (JObj [(ascii ''text'', JStr (ascii ''hello''))])
     = Inr (ascii ''hello'')"
  by (simp_all add: app_extract_user_query_def qpp_extract_user_query_def nested_text_def
        dict_get_def py_or_def return_first_def ascii_def py_strip_def py_isspace_def)

lemma ascii_eq_Nil [simp]: "ascii s = [] \<longleftrightarrow> s = []"
  by (simp add: ascii_def)

lemma slice_short [simp]:
  "py_slice_to 2000 (ascii ''{}'') = ascii ''{}''"
  "py_slice_to 2000 (ascii ''hello'') = ascii ''hello''"
  by (simp_all add: py_slice_to_def ascii_def)

lemma length_slice: "0 \<le> n \<Longrightarrow> int (length (py_slice_to n s)) \<le> n"
  by (simp add: py_slice_to_def)

lemma demo_loads [simp]:
  "json_loads demo_lib [] = None"
  "json_loads demo_lib hello_bytes = Some (JObj [(ascii ''text'', JStr (ascii ''hello''))])"
  "float_lib demo_lib = no_floats"
  by (simp_all add: demo_lib_def hello_bytes_def hello_payload_def)

section \<open>Claims about the signature verifier\<close>

lemma compare_digest_ascii:
  "list_all (\<lambda>c. c < 128) a \<Longrightarrow> list_all (\<lambda>c. c < 128) b \<Longrightarrow>
   compare_digest a b = Inr (a = b)"
  by (simp add: compare_digest_def)

text \<open>Three of the four cases of claim C3 hold as stated, and the fourth holds for header
  values made of ASCII characters.\<close>

lemma verify_signature_disabled:
  "app_WEBHOOK_SECRET cfg = [] \<Longrightarrow> app_verify_signature cfg lib raw hdrs = Inr True"
  "qpp_WEBHOOK_SECRET cfg' = [] \<Longrightarrow> qpp_verify_signature cfg' lib raw hdrs = Inr True"
  by (simp_all add: app_verify_signature_def qpp_verify_signature_def)

lemma verify_signature_missing_header:
  assumes "map_of hdrs (ascii ''X-Signature'') = None
             \<or> map_of hdrs (ascii ''X-Signature'') = Some []"
  shows "app_WEBHOOK_SECRET cfg \<noteq> [] \<Longrightarrow> app_verify_signature cfg lib raw hdrs = Inr False"
    and "qpp_WEBHOOK_SECRET cfg' \<noteq> [] \<Longrightarrow> qpp_verify_signature cfg' lib raw hdrs = Inr False"
  using assms
  by (auto simp: app_verify_signature_def qpp_verify_signature_def headers_get_def)

lemma verify_signature_ascii_header:
  assumes "map_of hdrs (ascii ''X-Signature'') = Some sig" and "sig \<noteq> []"
    and "list_all (\<lambda>c. c < 128) sig"
  shows "app_WEBHOOK_SECRET cfg \<noteq> [] \<Longrightarrow>
           list_all (\<lambda>c. c < 128) (hmac_hexdigest lib (app_WEBHOOK_SECRET cfg) raw) \<Longrightarrow>
           app_verify_signature cfg lib raw hdrs
             = Inr (hmac_hexdigest lib (app_WEBHOOK_SECRET cfg) raw = sig)"
    and "qpp_WEBHOOK_SECRET cfg' \<noteq> [] \<Longrightarrow>
           list_all (\<lambda>c. c < 128) (hmac_hexdigest lib (qpp_WEBHOOK_SECRET cfg') raw) \<Longrightarrow>
           qpp_verify_signature cfg' lib raw hdrs
             = Inr (hmac_hexdigest lib (qpp_WEBHOOK_SECRET cfg') raw = sig)"
  using assms
  by (simp_all add: app_verify_signature_def qpp_verify_signature_def headers_get_def
        compare_digest_ascii)

text \<open>
  Claim C3. With a secret configured, every header value other than the digest is claimed
  to give \<^verbatim>\<open>false\<close>. A request whose \<^verbatim>\<open>X-Signature\<close> header holds the one
  character U+00E9 makes \<^verbatim>\<open>hmac.compare_digest\<close> raise \<^verbatim>\<open>TypeError\<close>, in both files
  and for every body and digest, so \<^verbatim>\<open>verify_signature\<close> returns nothing and the
  handler ends with that exception instead of the 401 response.
\<close>

theorem non_ascii_signature_raises:
  "app_verify_signature (app_default_config\<lparr>app_WEBHOOK_SECRET := ascii ''s3cret''\<rparr>) lib raw
       [(ascii ''X-Signature'', [0xE9])]
     = Inl (TypeError (ascii ''comparing strings with non-ASCII characters is not supported''))
   \<and>
   qpp_verify_signature (qpp_default_config\<lparr>qpp_WEBHOOK_SECRET := ascii ''s3cret''\<rparr>) lib raw
       [(ascii ''X-Signature'', [0xE9])]
     = Inl (TypeError (ascii ''comparing strings with non-ASCII characters is not supported''))
   \<and>
   app_wechat_callback (app_default_config\<lparr>app_WEBHOOK_SECRET := ascii ''s3cret''\<rparr>) lib
       (fresh_request raw [(ascii ''X-Signature'', [0xE9])])
     = (Inl (TypeError (ascii ''comparing strings with non-ASCII characters is not supported'')),
        [])
   \<and>
   qpp_wechat_callback (qpp_default_config\<lparr>qpp_WEBHOOK_SECRET := ascii ''s3cret''\<rparr>) lib
       (fresh_request raw [(ascii ''X-Signature'', [0xE9])])
     = (Inl (TypeError (ascii ''comparing strings with non-ASCII characters is not supported'')),
        [])"
proof -
  have a: "app_verify_signature (app_default_config\<lparr>app_WEBHOOK_SECRET := ascii ''s3cret''\<rparr>)
             lib raw' [(ascii ''X-Signature'', [0xE9])]
     = Inl (TypeError (ascii ''comparing strings with non-ASCII characters is not supported''))"
    for raw'
    by (simp add: app_verify_signature_def headers_get_def compare_digest_def
          app_default_config_def ascii_def)
  have q: "qpp_verify_signature (qpp_default_config\<lparr>qpp_WEBHOOK_SECRET := ascii ''s3cret''\<rparr>)
             lib raw' [(ascii ''X-Signature'', [0xE9])]
     = Inl (TypeError (ascii ''comparing strings with non-ASCII characters is not supported''))"
    for raw'
    by (simp add: qpp_verify_signature_def headers_get_def compare_digest_def
          qpp_default_config_def ascii_def)
  show ?thesis
    by (simp add: a q app_callback_unfold qpp_callback_unfold fresh_request_def)
qed

text \<open>
  Claim C5. Whenever signature verification returns \<^verbatim>\<open>False\<close>, the handler of either
  file answers with status 401 and the body \<^verbatim>\<open>{"code": 401, "msg": "invalid signature"}\<close>
  and makes no outbound call; the answer is the same whatever the JSON parser and the
  completion endpoint would have done, since neither is consulted.
\<close>

theorem invalid_signature_is_401:
  "(app_verify_signature cfg lib (fst (get_data False req)) (headers req) = Inr False \<longrightarrow>
      app_wechat_callback cfg (lib\<lparr>json_loads := jl, requests_post := rp\<rparr>) req
        = (Inr \<lparr>status = 401,
                body = JObj [(ascii ''code'', JInt 401),
                             (ascii ''msg'', JStr (ascii ''invalid signature''))]\<rparr>, [])) \<and>
   (qpp_verify_signature cfg' lib (fst (get_data True req)) (headers req) = Inr False \<longrightarrow>
      qpp_wechat_callback cfg' (lib\<lparr>json_loads := jl, requests_post := rp\<rparr>) req
        = (Inr \<lparr>status = 401,
                body = JObj [(ascii ''code'', JInt 401),
                             (ascii ''msg'', JStr (ascii ''invalid signature''))]\<rparr>, []))"
proof (intro conjI impI)
  assume "app_verify_signature cfg lib (fst (get_data False req)) (headers req) = Inr False"
  then have "app_verify_signature cfg (lib\<lparr>json_loads := jl, requests_post := rp\<rparr>)
               (fst (get_data False req)) (headers req) = Inr False"
    by simp
  then show "app_wechat_callback cfg (lib\<lparr>json_loads := jl, requests_post := rp\<rparr>) req
        = (Inr \<lparr>status = 401,
                body = JObj [(ascii ''code'', JInt 401),
                             (ascii ''msg'', JStr (ascii ''invalid signature''))]\<rparr>, [])"
    by (simp add: app_callback_unfold invalid_signature_def)
next
  assume "qpp_verify_signature cfg' lib (fst (get_data True req)) (headers req) = Inr False"
  then have "qpp_verify_signature cfg' (lib\<lparr>json_loads := jl, requests_post := rp\<rparr>)
               (fst (get_data True req)) (headers req) = Inr False"
    by simp
  then show "qpp_wechat_callback cfg' (lib\<lparr>json_loads := jl, requests_post := rp\<rparr>) req
        = (Inr \<lparr>status = 401,
                body = JObj [(ascii ''code'', JInt 401),
                             (ascii ''msg'', JStr (ascii ''invalid signature''))]\<rparr>, [])"
    by (simp add: qpp_callback_unfold invalid_signature_def)
qed

text \<open>The theorem at a request without the header (\<^verbatim>\<open>app.py\<close>) and at one with a wrong
  digest (\<^verbatim>\<open>qpp.py\<close>), the secret being \<^verbatim>\<open>s3cret\<close>.\<close>

theorem invalid_signature_is_401_witness:
  "app_wechat_callback (app_default_config\<lparr>app_WEBHOOK_SECRET := ascii ''s3cret''\<rparr>) demo_lib
      (fresh_request hello_bytes [])
     = (Inr \<lparr>status = 401,
             body = JObj [(ascii ''code'', JInt 401),
                          (ascii ''msg'', JStr (ascii ''invalid signature''))]\<rparr>, []) \<and>
   qpp_wechat_callback (qpp_default_config\<lparr>qpp_WEBHOOK_SECRET := ascii ''s3cret''\<rparr>) demo_lib
      (fresh_request hello_bytes [(ascii ''X-Signature'', ascii ''abcd'')])
     = (Inr \<lparr>status = 401,
             body = JObj [(ascii ''code'', JInt 401),
                          (ascii ''msg'', JStr (ascii ''invalid signature''))]\<rparr>, [])"
proof -
  have a: "app_verify_signature (app_default_config\<lparr>app_WEBHOOK_SECRET := ascii ''s3cret''\<rparr>)
             demo_lib (fst (get_data False (fresh_request hello_bytes [])))
             (headers (fresh_request hello_bytes [])) = Inr False"
    by (simp add: app_verify_signature_def headers_get_def app_default_config_def ascii_def
          fresh_request_def)
  have q: "qpp_verify_signature (qpp_default_config\<lparr>qpp_WEBHOOK_SECRET := ascii ''s3cret''\<rparr>)
             demo_lib
             (fst (get_data True (fresh_request hello_bytes [(ascii ''X-Signature'', ascii ''abcd'')])))
             (headers (fresh_request hello_bytes [(ascii ''X-Signature'', ascii ''abcd'')]))
           = Inr False"
  proof -
    have "length (replicate 64 (48::nat)) \<noteq> length [97, 98, 99, 100::nat]"
      by simp
    then have ne: "replicate 64 (48::nat) \<noteq> [97, 98, 99, 100]"
      by metis
    have "compare_digest (replicate 64 48) [97, 98, 99, 100] = Inr False"
      using ne by (simp add: compare_digest_def list_all_iff)
    then show ?thesis
      by (simp add: qpp_verify_signature_def headers_get_def qpp_default_config_def
            fresh_request_def demo_lib_def ascii_def)
  qed
  have same: "demo_lib\<lparr>json_loads := json_loads demo_lib,
                       requests_post := requests_post demo_lib\<rparr> = demo_lib"
    by simp
  show ?thesis
    using invalid_signature_is_401
      [where cfg = "app_default_config\<lparr>app_WEBHOOK_SECRET := ascii ''s3cret''\<rparr>"
         and lib = demo_lib and req = "fresh_request hello_bytes []"
         and jl = "json_loads demo_lib" and rp = "requests_post demo_lib"]
      invalid_signature_is_401
      [where cfg' = "qpp_default_config\<lparr>qpp_WEBHOOK_SECRET := ascii ''s3cret''\<rparr>"
         and lib = demo_lib
         and req = "fresh_request hello_bytes [(ascii ''X-Signature'', ascii ''abcd'')]"
         and jl = "json_loads demo_lib" and rp = "requests_post demo_lib"]
      a q
    unfolding same by blast
qed

section \<open>Claims about the completion client\<close>

text \<open>The failures of the \<^verbatim>\<open>try\<close> block, by kind: an exception of \<^verbatim>\<open>requests.post\<close>
  (timeout, transport error), a status from 400 to 599, a body that is not JSON, and a
  body of the wrong shape.\<close>

lemma try_completion_raised:
  "requests_post lib call = Raised m \<Longrightarrow> try_completion lib call = Inl (RequestException m)"
  by (simp add: try_completion_def)

lemma try_completion_http_error:
  assumes "requests_post lib call = Returned r"
    and "400 \<le> status_code r" and "status_code r < 600"
  shows "\<exists>m. try_completion lib call = Inl (HTTPError m)"
  using assms
  by (cases "status_code r < 500") (simp_all add: try_completion_def raise_for_status_def)

lemma try_completion_bad_body:
  assumes "requests_post lib call = Returned r" and "raise_for_status r = Inr ()"
    and "json_result r = Inl m"
  shows "try_completion lib call = Inl (JSONDecodeError m)"
  using assms by (simp add: try_completion_def)

lemma try_completion_bad_shape:
  assumes "requests_post lib call = Returned r" and "raise_for_status r = Inr ()"
    and "json_result r = Inr resp" and "first_choice_content resp = Inl e"
  shows "try_completion lib call = Inl e"
  using assms by (simp add: try_completion_def)

lemma app_ask_openai_calls:
  "snd (app_ask_openai cfg lib q) = [call] \<Longrightarrow>
   call = app_openai_call cfg q \<and>
   fst (app_ask_openai cfg lib q) = catch_completion (try_completion lib call)"
  by (auto simp: app_ask_openai_def split: if_splits)

lemma qpp_answer_calls:
  "snd (qpp_answer cfg lib q) = [call] \<Longrightarrow>
   call = qpp_openai_call cfg q \<and>
   fst (qpp_answer cfg lib q) = py_slice_to 1500 (catch_completion (try_completion lib call))"
  by (auto simp: qpp_answer_def qpp_ask_openai_def split: if_splits)

lemma user_message [simp]:
  "snd (last (call_messages (app_openai_call cfg q))) = q"
  "snd (last (call_messages (qpp_openai_call cfg' q))) = q"
  by (simp_all add: app_openai_call_def qpp_openai_call_def)

text \<open>
  Claim C4 (as amended). When the \<^verbatim>\<open>try\<close> block of the completion client ends with an
  exception \<open>e\<close> (timeout or transport error, status 400 to 599, body that is not JSON or
  has the wrong shape), a configured client returns the text \<^verbatim>\<open>"..." + str(e)\<close> and
  raises nothing; and a handler that made this call answers with status 200, its
  \<^verbatim>\<open>text\<close> field holding that text cut to the maximum reply length
  (\<^verbatim>\<open>MAX_REPLY_LEN\<close> in \<^verbatim>\<open>app.py\<close>, 1500 in \<^verbatim>\<open>qpp.py\<close>).
\<close>

theorem upstream_failure_answered:
  assumes "try_completion lib call = Inl e"
  shows "(app_OPENAI_API_KEY cfg \<noteq> [] \<and> call = app_openai_call cfg prompt \<longrightarrow>
            app_ask_openai cfg lib prompt = (call_failed @ exc_str e, [call])) \<and>
         (call = qpp_openai_call cfg' prompt \<longrightarrow>
            qpp_ask_openai cfg' lib prompt = (call_failed @ exc_str e, [call])) \<and>
         (snd (app_wechat_callback cfg lib req) = [call] \<longrightarrow>
            fst (app_wechat_callback cfg lib req)
              = Inr \<lparr>status = 200,
                     body = JObj [(ascii ''text'',
                       JStr (py_slice_to (app_MAX_REPLY_LEN cfg) (call_failed @ exc_str e)))]\<rparr>) \<and>
         (snd (qpp_wechat_callback cfg' lib req) = [call] \<longrightarrow>
            fst (qpp_wechat_callback cfg' lib req)
              = Inr \<lparr>status = 200,
                     body = JObj [(ascii ''text'',
                                   JStr (py_slice_to 1500 (call_failed @ exc_str e))),
                                  (ascii ''meta'',
                                   JObj [(ascii ''echo'', JStr (snd (last (call_messages call)))),
                                         (ascii ''model'', JStr qpp_MODEL)])]\<rparr>)"
proof (intro conjI impI)
  assume "app_OPENAI_API_KEY cfg \<noteq> [] \<and> call = app_openai_call cfg prompt"
  then show "app_ask_openai cfg lib prompt = (call_failed @ exc_str e, [call])"
    using assms by (simp add: app_ask_openai_def catch_completion_def)
next
  assume "call = qpp_openai_call cfg' prompt"
  then show "qpp_ask_openai cfg' lib prompt = (call_failed @ exc_str e, [call])"
    using assms by (simp add: qpp_ask_openai_def catch_completion_def)
next
  assume c: "snd (app_wechat_callback cfg lib req) = [call]"
  show "fst (app_wechat_callback cfg lib req)
          = Inr \<lparr>status = 200,
                 body = JObj [(ascii ''text'',
                   JStr (py_slice_to (app_MAX_REPLY_LEN cfg) (call_failed @ exc_str e)))]\<rparr>"
    using c assms
    by (auto simp: app_callback_unfold catch_completion_def
          split: sum.splits if_splits dest!: app_ask_openai_calls)
next
  assume c: "snd (qpp_wechat_callback cfg' lib req) = [call]"
  show "fst (qpp_wechat_callback cfg' lib req)
          = Inr \<lparr>status = 200,
                 body = JObj [(ascii ''text'', JStr (py_slice_to 1500 (call_failed @ exc_str e))),
                              (ascii ''meta'',
                               JObj [(ascii ''echo'', JStr (snd (last (call_messages call)))),
                                     (ascii ''model'', JStr qpp_MODEL)])]\<rparr>"
    using c assms
    by (auto simp: qpp_callback_unfold catch_completion_def
          split: sum.splits if_splits dest!: qpp_answer_calls)
qed

text \<open>The theorem at a completion endpoint that times out, with a credential configured
  and no secret: both handlers answer 200 with the failure text.\<close>

theorem upstream_failure_answered_witness:
  "fst (app_wechat_callback (app_default_config\<lparr>app_OPENAI_API_KEY := ascii ''sk''\<rparr>) demo_lib
          (fresh_request hello_bytes []))
     = Inr \<lparr>status = 200,
            body = JObj [(ascii ''text'', JStr (call_failed @ ascii ''timed out''))]\<rparr> \<and>
   fst (qpp_wechat_callback (qpp_default_config\<lparr>qpp_OPENAI_API_KEY := Some (ascii ''sk'')\<rparr>)
          demo_lib (fresh_request hello_bytes []))
     = Inr \<lparr>status = 200,
            body = JObj [(ascii ''text'', JStr (call_failed @ ascii ''timed out'')),
                         (ascii ''meta'',
                          JObj [(ascii ''echo'', JStr (ascii ''hello'')),
                                (ascii ''model'', JStr qpp_MODEL)])]\<rparr>"
proof -
  let ?acfg = "app_default_config\<lparr>app_OPENAI_API_KEY := ascii ''sk''\<rparr>"
  let ?qcfg = "qpp_default_config\<lparr>qpp_OPENAI_API_KEY := Some (ascii ''sk'')\<rparr>"
  let ?req = "fresh_request hello_bytes []"
  have fail: "try_completion demo_lib call = Inl (RequestException (ascii ''timed out''))"
    for call
    by (simp add: try_completion_def demo_lib_def)
  have acfg: "app_WEBHOOK_SECRET ?acfg = []" "app_MAX_REPLY_LEN ?acfg = 1500"
    "app_OPENAI_API_KEY ?acfg \<noteq> []"
    by (simp_all add: app_default_config_def ascii_def)
  have qcfg: "qpp_WEBHOOK_SECRET ?qcfg = []" "qpp_OPENAI_API_KEY ?qcfg \<noteq> None"
    "qpp_OPENAI_API_KEY ?qcfg \<noteq> Some []"
    by (simp_all add: qpp_default_config_def ascii_def)
  have acalls: "snd (app_wechat_callback ?acfg demo_lib ?req)
                  = [app_openai_call ?acfg (ascii ''{}'')]"
    by (simp add: app_callback_unfold app_payload_fresh extract_empty_object
          verify_signature_disabled acfg app_ask_openai_def)
  have qcalls: "snd (qpp_wechat_callback ?qcfg demo_lib ?req)
                  = [qpp_openai_call ?qcfg (ascii ''hello'')]"
    by (simp add: qpp_callback_unfold qpp_parsed_fresh extract_hello py_or_def
          verify_signature_disabled qcfg qpp_answer_def qpp_ask_openai_def)
  have len: "py_slice_to 1500 (call_failed @ ascii ''timed out'')
               = call_failed @ ascii ''timed out''"
    by (simp add: py_slice_to_def call_failed_def ascii_def)
  show ?thesis
    using upstream_failure_answered [OF fail, where cfg = ?acfg and req = ?req]
      upstream_failure_answered [OF fail, where cfg' = ?qcfg and req = ?req]
      acalls qcalls len acfg(2)
    by simp
qed

text \<open>
  The claim as stated fails in two ways. The handler does not carry the client's text
  as it is: when the endpoint answers with status 500 and a reason phrase of 1500
  characters, the client's answer has 1578 characters and the \<^verbatim>\<open>text\<close> field holds its
  first 1500. And a status outside 200 to 299 is not always a failure for the client:
  \<^verbatim>\<open>raise_for_status\<close> raises from 400 on, so a response with status 302 and a
  well-formed completion body is answered with the completion.
\<close>

theorem failure_text_counterexample:
  "fst (app_ask_openai (app_default_config\<lparr>app_OPENAI_API_KEY := ascii ''sk''\<rparr>)
          long_error_lib (ascii ''{}''))
     = call_failed @ ascii ''500 Server Error: '' @ replicate 1500 120
         @ ascii '' for url: '' @ openai_url \<and>
   fst (app_wechat_callback (app_default_config\<lparr>app_OPENAI_API_KEY := ascii ''sk''\<rparr>)
          long_error_lib (fresh_request hello_bytes []))
     = Inr \<lparr>status = 200,
            body = JObj [(ascii ''text'',
              JStr (call_failed @ ascii ''500 Server Error: '' @ replicate 1474 120))]\<rparr> \<and>
   length (call_failed @ ascii ''500 Server Error: '' @ replicate 1474 (120::nat)) = 1500 \<and>
   length (call_failed @ ascii ''500 Server Error: '' @ replicate 1500 (120::nat)
             @ ascii '' for url: '' @ openai_url) = 1578 \<and>
   fst (app_ask_openai (app_default_config\<lparr>app_OPENAI_API_KEY := ascii ''sk''\<rparr>)
          redirect_lib (ascii ''{}''))
     = ascii ''hi''"
proof -
  let ?acfg = "app_default_config\<lparr>app_OPENAI_API_KEY := ascii ''sk''\<rparr>"
  let ?msg = "call_failed @ ascii ''500 Server Error: '' @ replicate 1500 (120::nat)
                @ ascii '' for url: '' @ openai_url"
  have acfg: "app_WEBHOOK_SECRET ?acfg = []" "app_MAX_REPLY_LEN ?acfg = 1500"
    "app_OPENAI_API_KEY ?acfg \<noteq> []"
    by (simp_all add: app_default_config_def)
  have "str_nat 500 = ascii ''500''"
    by (simp add: str_nat.simps ascii_def)
  then have ask: "app_ask_openai ?acfg long_error_lib q = (?msg, [app_openai_call ?acfg q])"
    for q
    by (simp add: app_ask_openai_def catch_completion_def try_completion_def acfg
          long_error_lib_def server_error_response_def raise_for_status_def ascii_def)
  have no_empty: "json_loads long_error_lib [] = None"
    by (simp add: long_error_lib_def)
  have cut: "py_slice_to 1500 ?msg
               = call_failed @ ascii ''500 Server Error: '' @ replicate 1474 120"
    by (simp add: py_slice_to_def call_failed_def ascii_def)
  have handler: "fst (app_wechat_callback ?acfg long_error_lib (fresh_request hello_bytes []))
     = Inr \<lparr>status = 200,
            body = JObj [(ascii ''text'',
              JStr (call_failed @ ascii ''500 Server Error: '' @ replicate 1474 120))]\<rparr>"
    by (simp add: app_callback_unfold app_payload_fresh [OF no_empty] extract_empty_object
          verify_signature_disabled acfg ask cut)
  have redirect: "fst (app_ask_openai ?acfg redirect_lib (ascii ''{}'')) = ascii ''hi''"
    by (simp add: app_ask_openai_def catch_completion_def try_completion_def acfg
          redirect_lib_def found_response_def raise_for_status_def first_choice_content_def
          dict_get_def py_strip_def py_isspace_def ascii_def)
  have len: "length (call_failed @ ascii ''500 Server Error: '' @ replicate 1474 (120::nat)) = 1500"
    "length ?msg = 1578"
    by (simp_all add: call_failed_def openai_url_def ascii_def)
  show ?thesis
    using ask handler redirect len by simp
qed

section \<open>Claims about the callback handler\<close>

text \<open>What \<^verbatim>\<open>qpp.py\<close> answers when it has no secret and no credential and the body
  parses to \<^verbatim>\<open>{"text": "hello"}\<close>.\<close>

lemma qpp_hello_response:
  assumes "qpp_WEBHOOK_SECRET cfg = []"
    and "qpp_OPENAI_API_KEY cfg = None \<or> qpp_OPENAI_API_KEY cfg = Some []"
    and "json_loads lib raw = Some (JObj [(ascii ''text'', JStr (ascii ''hello''))])"
  shows "qpp_wechat_callback cfg lib (fresh_request raw hdrs)
           = (Inr \<lparr>status = 200,
                   body = JObj [(ascii ''text'', JStr not_configured),
                                (ascii ''meta'',
                                 JObj [(ascii ''echo'', JStr (ascii ''hello'')),
                                       (ascii ''model'', JStr qpp_MODEL)])]\<rparr>, [])"
  using assms(2)
  by (auto simp: qpp_callback_unfold qpp_parsed_fresh assms(1,3) extract_hello py_or_def
        verify_signature_disabled qpp_answer_def)

text \<open>
  \<^verbatim>\<open>app.py\<close> reads the body with \<^verbatim>\<open>get_data(cache=False)\<close> before it calls
  \<^verbatim>\<open>get_json\<close>. On a request whose body has not been cached, the first call empties
  the stream and keeps nothing, \<^verbatim>\<open>get_json\<close> parses the empty byte string, fails
  silently, and the handler goes on with the payload \<^verbatim>\<open>{}\<close>: whatever was posted, the
  extracted query is the text \<^verbatim>\<open>{}\<close>.
\<close>

lemma app_fresh_response:
  assumes "json_loads lib [] = None"
  shows "app_wechat_callback app_default_config lib (fresh_request raw hdrs)
           = (Inr \<lparr>status = 200,
                   body = JObj [(ascii ''text'', JStr (you_said @ ascii ''{}''))]\<rparr>, [])"
proof -
  have cfg: "app_WEBHOOK_SECRET app_default_config = []"
    "app_OPENAI_API_KEY app_default_config = []"
    "app_MAX_REPLY_LEN app_default_config = 1500"
    by (simp_all add: app_default_config_def)
  have "py_slice_to 1500 (you_said @ ascii ''{}'') = you_said @ ascii ''{}''"
    by (simp add: py_slice_to_def you_said_def ascii_def)
  then show ?thesis
    by (simp add: app_callback_unfold app_payload_fresh [OF assms] extract_empty_object
          verify_signature_disabled cfg app_ask_openai_def)
qed

text \<open>The branch for an empty query is never taken: the extractor's result is never
  empty, and \<^verbatim>\<open>qpp.py\<close> never answers \<^verbatim>\<open>{"code": 400, "msg": "empty query"}\<close>.\<close>

lemma empty_query_unreachable:
  "fst (qpp_wechat_callback cfg lib req) \<noteq> Inr empty_query"
  by (simp add: qpp_callback_unfold empty_query_def invalid_signature_def bad_json_def ascii_def
        split: sum.splits)

lemma app_calls:
  "call \<in> set (snd (app_ask_openai cfg lib q)) \<Longrightarrow> call = app_openai_call cfg q"
  by (auto simp: app_ask_openai_def split: if_splits)

lemma qpp_calls:
  "call \<in> set (snd (qpp_answer cfg lib q)) \<Longrightarrow> call = qpp_openai_call cfg q"
  by (auto simp: qpp_answer_def qpp_ask_openai_def split: if_splits)

text \<open>
  Claim C7. Cutting a string with \<^verbatim>\<open>[:N]\<close> is taking its first \<open>N\<close> characters, for
  every natural number \<open>N\<close>, and the cut at 2000 leaves at most 2000 characters. The
  handlers use the extractor's output \<open>t\<close> only through that cut, which has at most 2000
  characters: once the signature is accepted and the extractor has returned \<open>t\<close>, the
  whole outcome of \<^verbatim>\<open>app.py\<close> (the \<^verbatim>\<open>text\<close> it answers, echoed without a credential,
  and the prompt it sends with one) and of \<^verbatim>\<open>qpp.py\<close> (the \<^verbatim>\<open>text\<close>, the echoed
  query in \<^verbatim>\<open>meta\<close>, and the prompt it sends) is computed from the first 2000
  characters of \<open>t\<close>; and every 200 response and every outbound call of either handler
  arises this way.
\<close>

theorem extracted_query_is_bounded_prefix:
  "py_slice_to (int n) (s :: pystr) = take n s \<and>
   length (py_slice_to 2000 s) \<le> 2000 \<and>
   (app_verify_signature cfg lib (fst (get_data False req)) (headers req) = Inr True \<and>
    app_extract_user_query (float_lib lib) (app_payload lib req) = Inr t \<longrightarrow>
      length (take 2000 t) \<le> 2000 \<and>
      app_wechat_callback cfg lib req
        = (Inr \<lparr>status = 200,
                body = JObj [(ascii ''text'',
                  JStr (py_slice_to (app_MAX_REPLY_LEN cfg)
                         (fst (app_ask_openai cfg lib (take 2000 t)))))]\<rparr>,
           snd (app_ask_openai cfg lib (take 2000 t))) \<and>
      (app_OPENAI_API_KEY cfg = [] \<longrightarrow>
         app_wechat_callback cfg lib req
           = (Inr \<lparr>status = 200,
                   body = JObj [(ascii ''text'',
                     JStr (py_slice_to (app_MAX_REPLY_LEN cfg) (you_said @ take 2000 t)))]\<rparr>,
              [])) \<and>
      (app_OPENAI_API_KEY cfg \<noteq> [] \<longrightarrow>
         snd (app_wechat_callback cfg lib req) = [app_openai_call cfg (take 2000 t)])) \<and>
   (fst (app_wechat_callback cfg lib req) = Inr r \<and> status r = 200 \<longrightarrow>
      (\<exists>u. app_extract_user_query (float_lib lib) (app_payload lib req) = Inr u \<and>
           body r = JObj [(ascii ''text'',
             JStr (py_slice_to (app_MAX_REPLY_LEN cfg)
                    (fst (app_ask_openai cfg lib (take 2000 u)))))])) \<and>
   (call \<in> set (snd (app_wechat_callback cfg lib req)) \<longrightarrow>
      (\<exists>u. app_extract_user_query (float_lib lib) (app_payload lib req) = Inr u \<and>
           call = app_openai_call cfg (take 2000 u) \<and>
           snd (last (call_messages call)) = take 2000 u)) \<and>
   (qpp_verify_signature cfg' lib (fst (get_data True req)) (headers req) = Inr True \<and>
    qpp_parsed lib req = Inr v \<and>
    qpp_extract_user_query (float_lib lib) (py_or (float_lib lib) v (JObj [])) = Inr t' \<longrightarrow>
      length (take 2000 t') \<le> 2000 \<and>
      (qpp_OPENAI_API_KEY cfg' = None \<or> qpp_OPENAI_API_KEY cfg' = Some [] \<longrightarrow>
         qpp_wechat_callback cfg' lib req
           = (Inr \<lparr>status = 200,
                   body = JObj [(ascii ''text'', JStr not_configured),
                                (ascii ''meta'',
                                 JObj [(ascii ''echo'', JStr (take 2000 t')),
                                       (ascii ''model'', JStr qpp_MODEL)])]\<rparr>,
              [])) \<and>
      (qpp_OPENAI_API_KEY cfg' \<noteq> None \<and> qpp_OPENAI_API_KEY cfg' \<noteq> Some [] \<longrightarrow>
         qpp_wechat_callback cfg' lib req
           = (Inr \<lparr>status = 200,
                   body = JObj [(ascii ''text'',
                                 JStr (py_slice_to 1500
                                        (fst (qpp_ask_openai cfg' lib (take 2000 t'))))),
                                (ascii ''meta'',
                                 JObj [(ascii ''echo'', JStr (take 2000 t')),
                                       (ascii ''model'', JStr qpp_MODEL)])]\<rparr>,
              [qpp_openai_call cfg' (take 2000 t')]))) \<and>
   (fst (qpp_wechat_callback cfg' lib req) = Inr r' \<and> status r' = 200 \<longrightarrow>
      (\<exists>w u a. qpp_parsed lib req = Inr w \<and>
         qpp_extract_user_query (float_lib lib) (py_or (float_lib lib) w (JObj [])) = Inr u \<and>
         body r' = JObj [(ascii ''text'', JStr a),
                         (ascii ''meta'',
                          JObj [(ascii ''echo'', JStr (take 2000 u)),
                                (ascii ''model'', JStr qpp_MODEL)])])) \<and>
   (call' \<in> set (snd (qpp_wechat_callback cfg' lib req)) \<longrightarrow>
      (\<exists>w u. qpp_parsed lib req = Inr w \<and>
         qpp_extract_user_query (float_lib lib) (py_or (float_lib lib) w (JObj [])) = Inr u \<and>
         call' = qpp_openai_call cfg' (take 2000 u) \<and>
         snd (last (call_messages call')) = take 2000 u))"
proof (intro conjI impI)
  show "py_slice_to (int n) s = take n s"
    by (rule slice_nat)
  show "length (py_slice_to 2000 s) \<le> 2000"
    by (simp add: py_slice_to_def)
next
  assume a: "app_verify_signature cfg lib (fst (get_data False req)) (headers req) = Inr True \<and>
    app_extract_user_query (float_lib lib) (app_payload lib req) = Inr t"
  show "length (take 2000 t) \<le> 2000"
    by simp
  show whole: "app_wechat_callback cfg lib req
        = (Inr \<lparr>status = 200,
                body = JObj [(ascii ''text'',
                  JStr (py_slice_to (app_MAX_REPLY_LEN cfg)
                         (fst (app_ask_openai cfg lib (take 2000 t)))))]\<rparr>,
           snd (app_ask_openai cfg lib (take 2000 t)))"
    using a by (simp add: app_callback_unfold py_slice_to_def)
  {
    assume "app_OPENAI_API_KEY cfg = []"
    then show "app_wechat_callback cfg lib req
           = (Inr \<lparr>status = 200,
                   body = JObj [(ascii ''text'',
                     JStr (py_slice_to (app_MAX_REPLY_LEN cfg) (you_said @ take 2000 t)))]\<rparr>,
              [])"
      by (simp add: whole app_ask_openai_def)
  }
  {
    assume "app_OPENAI_API_KEY cfg \<noteq> []"
    then show "snd (app_wechat_callback cfg lib req) = [app_openai_call cfg (take 2000 t)]"
      by (simp add: whole app_ask_openai_def)
  }
next
  assume "fst (app_wechat_callback cfg lib req) = Inr r \<and> status r = 200"
  then show "\<exists>u. app_extract_user_query (float_lib lib) (app_payload lib req) = Inr u \<and>
           body r = JObj [(ascii ''text'',
             JStr (py_slice_to (app_MAX_REPLY_LEN cfg)
                    (fst (app_ask_openai cfg lib (take 2000 u)))))]"
    by (auto simp: app_callback_unfold py_slice_to_def invalid_signature_def
          split: sum.splits if_splits)
next
  assume "call \<in> set (snd (app_wechat_callback cfg lib req))"
  then show "\<exists>u. app_extract_user_query (float_lib lib) (app_payload lib req) = Inr u \<and>
           call = app_openai_call cfg (take 2000 u) \<and>
           snd (last (call_messages call)) = take 2000 u"
    by (auto simp: app_callback_unfold py_slice_to_def
          split: sum.splits if_splits dest!: app_calls)
next
  assume q: "qpp_verify_signature cfg' lib (fst (get_data True req)) (headers req) = Inr True \<and>
    qpp_parsed lib req = Inr v \<and>
    qpp_extract_user_query (float_lib lib) (py_or (float_lib lib) v (JObj [])) = Inr t'"
  show "length (take 2000 t') \<le> 2000"
    by simp
  {
    assume "qpp_OPENAI_API_KEY cfg' = None \<or> qpp_OPENAI_API_KEY cfg' = Some []"
    then show "qpp_wechat_callback cfg' lib req
           = (Inr \<lparr>status = 200,
                   body = JObj [(ascii ''text'', JStr not_configured),
                                (ascii ''meta'',
                                 JObj [(ascii ''echo'', JStr (take 2000 t')),
                                       (ascii ''model'', JStr qpp_MODEL)])]\<rparr>,
              [])"
      using q by (auto simp: qpp_callback_unfold py_slice_to_def qpp_answer_def)
  }
  {
    assume "qpp_OPENAI_API_KEY cfg' \<noteq> None \<and> qpp_OPENAI_API_KEY cfg' \<noteq> Some []"
    then show "qpp_wechat_callback cfg' lib req
           = (Inr \<lparr>status = 200,
                   body = JObj [(ascii ''text'',
                                 JStr (py_slice_to 1500
                                        (fst (qpp_ask_openai cfg' lib (take 2000 t'))))),
                                (ascii ''meta'',
                                 JObj [(ascii ''echo'', JStr (take 2000 t')),
                                       (ascii ''model'', JStr qpp_MODEL)])]\<rparr>,
              [qpp_openai_call cfg' (take 2000 t')])"
      using q
      by (auto simp: qpp_callback_unfold py_slice_to_def qpp_answer_def qpp_ask_openai_def)
  }
next
  assume "fst (qpp_wechat_callback cfg' lib req) = Inr r' \<and> status r' = 200"
  then show "\<exists>w u a. qpp_parsed lib req = Inr w \<and>
         qpp_extract_user_query (float_lib lib) (py_or (float_lib lib) w (JObj [])) = Inr u \<and>
         body r' = JObj [(ascii ''text'', JStr a),
                         (ascii ''meta'',
                          JObj [(ascii ''echo'', JStr (take 2000 u)),
                                (ascii ''model'', JStr qpp_MODEL)])]"
    by (auto simp: qpp_callback_unfold py_slice_to_def invalid_signature_def bad_json_def
          split: sum.splits if_splits)
next
  assume "call' \<in> set (snd (qpp_wechat_callback cfg' lib req))"
  then show "\<exists>w u. qpp_parsed lib req = Inr w \<and>
         qpp_extract_user_query (float_lib lib) (py_or (float_lib lib) w (JObj [])) = Inr u \<and>
         call' = qpp_openai_call cfg' (take 2000 u) \<and>
         snd (last (call_messages call')) = take 2000 u"
    by (auto simp: qpp_callback_unfold py_slice_to_def
          split: sum.splits if_splits dest!: qpp_calls)
qed

text \<open>The theorem at the cut \<^verbatim>\<open>"hello"[:3]\<close>; at \<^verbatim>\<open>app.py\<close> with and without a
  credential; and at \<^verbatim>\<open>qpp.py\<close>, with and without a credential, on a payload whose
  text has 2001 characters, of which 2000 are echoed and sent.\<close>

theorem extracted_query_is_bounded_prefix_witness:
  "py_slice_to 3 (ascii ''hello'') = ascii ''hel'' \<and>
   length (py_slice_to 2000 (ascii ''hello'')) \<le> 2000 \<and>
   app_wechat_callback (app_default_config\<lparr>app_OPENAI_API_KEY := ascii ''sk''\<rparr>) demo_lib
       (fresh_request hello_bytes [])
     = (Inr \<lparr>status = 200,
             body = JObj [(ascii ''text'', JStr (call_failed @ ascii ''timed out''))]\<rparr>,
        [app_openai_call (app_default_config\<lparr>app_OPENAI_API_KEY := ascii ''sk''\<rparr>)
           (ascii ''{}'')]) \<and>
   app_wechat_callback app_default_config demo_lib (fresh_request hello_bytes [])
     = (Inr \<lparr>status = 200,
             body = JObj [(ascii ''text'', JStr (you_said @ ascii ''{}''))]\<rparr>, []) \<and>
   qpp_wechat_callback (qpp_default_config\<lparr>qpp_OPENAI_API_KEY := Some (ascii ''sk'')\<rparr>)
       long_query_lib (fresh_request hello_bytes [])
     = (Inr \<lparr>status = 200,
             body = JObj [(ascii ''text'', JStr (call_failed @ ascii ''timed out'')),
                          (ascii ''meta'',
                           JObj [(ascii ''echo'', JStr (replicate 2000 97)),
                                 (ascii ''model'', JStr qpp_MODEL)])]\<rparr>,
        [qpp_openai_call (qpp_default_config\<lparr>qpp_OPENAI_API_KEY := Some (ascii ''sk'')\<rparr>)
           (replicate 2000 97)]) \<and>
   qpp_wechat_callback qpp_default_config long_query_lib (fresh_request hello_bytes [])
     = (Inr \<lparr>status = 200,
             body = JObj [(ascii ''text'', JStr not_configured),
                          (ascii ''meta'',
                           JObj [(ascii ''echo'', JStr (replicate 2000 97)),
                                 (ascii ''model'', JStr qpp_MODEL)])]\<rparr>, [])"
proof -
  let ?acfg = "app_default_config\<lparr>app_OPENAI_API_KEY := ascii ''sk''\<rparr>"
  let ?qcfg = "qpp_default_config\<lparr>qpp_OPENAI_API_KEY := Some (ascii ''sk'')\<rparr>"
  let ?req = "fresh_request hello_bytes []"
  let ?long = "JObj [(ascii ''text'', JStr (replicate 2001 97))] :: unit json"
  have acfg: "app_WEBHOOK_SECRET ?acfg = []" "app_OPENAI_API_KEY ?acfg \<noteq> []"
    "app_MAX_REPLY_LEN ?acfg = 1500"
    "app_WEBHOOK_SECRET app_default_config = []" "app_OPENAI_API_KEY app_default_config = []"
    "app_MAX_REPLY_LEN app_default_config = 1500"
    by (simp_all add: app_default_config_def)
  have qcfg: "qpp_WEBHOOK_SECRET ?qcfg = []" "qpp_OPENAI_API_KEY ?qcfg \<noteq> None"
    "qpp_OPENAI_API_KEY ?qcfg \<noteq> Some []"
    "qpp_WEBHOOK_SECRET qpp_default_config = []" "qpp_OPENAI_API_KEY qpp_default_config = None"
    by (simp_all add: qpp_default_config_def)
  have averify: "app_verify_signature ?acfg demo_lib (fst (get_data False ?req)) (headers ?req)
                   = Inr True"
    "app_verify_signature app_default_config demo_lib (fst (get_data False ?req)) (headers ?req)
                   = Inr True"
    by (simp_all add: verify_signature_disabled acfg)
  have aextract: "app_extract_user_query (float_lib demo_lib) (app_payload demo_lib ?req)
                    = Inr (ascii ''{}'')"
    by (simp add: app_payload_fresh extract_empty_object)
  have qverify: "qpp_verify_signature ?qcfg long_query_lib (fst (get_data True ?req)) (headers ?req)
                   = Inr True"
    "qpp_verify_signature qpp_default_config long_query_lib (fst (get_data True ?req))
       (headers ?req) = Inr True"
    by (simp_all add: verify_signature_disabled qcfg)
  have qparsed: "qpp_parsed long_query_lib ?req = Inr ?long"
    by (simp add: qpp_parsed_fresh long_query_lib_def)
  have fl: "float_lib long_query_lib = no_floats"
    by (simp add: long_query_lib_def)
  have qextract: "qpp_extract_user_query (float_lib long_query_lib)
                    (py_or (float_lib long_query_lib) ?long (JObj [])) = Inr (replicate 2001 97)"
    by (simp add: fl py_or_def qpp_extract_user_query_def nested_text_def dict_get_def
          return_first_def py_strip_def py_isspace_def ascii_def)
  have fail: "try_completion demo_lib call = Inl (RequestException (ascii ''timed out''))"
    "try_completion long_query_lib call = Inl (RequestException (ascii ''timed out''))"
    for call
    by (simp_all add: try_completion_def demo_lib_def long_query_lib_def)
  have ask: "fst (app_ask_openai ?acfg demo_lib q) = call_failed @ ascii ''timed out''"
    "fst (qpp_ask_openai ?qcfg long_query_lib q) = call_failed @ ascii ''timed out''" for q
    by (simp_all add: app_ask_openai_def qpp_ask_openai_def catch_completion_def fail acfg)
  have short: "py_slice_to 1500 (call_failed @ ascii ''timed out'')
                 = call_failed @ ascii ''timed out''"
    "py_slice_to 1500 (you_said @ ascii ''{}'') = you_said @ ascii ''{}''"
    "take 2000 (ascii ''{}'') = ascii ''{}''"
    "take 3 (ascii ''hello'') = ascii ''hel''"
    by (simp_all add: py_slice_to_def call_failed_def you_said_def ascii_def)
  have cut: "take 2000 (replicate 2001 (97::nat)) = replicate 2000 97"
    by simp
  note a1 = extracted_query_is_bounded_prefix
      [where n = 3 and s = "ascii ''hello''" and cfg = ?acfg and lib = demo_lib and req = ?req
         and t = "ascii ''{}''"]
  note a2 = extracted_query_is_bounded_prefix
      [where cfg = app_default_config and lib = demo_lib and req = ?req and t = "ascii ''{}''"]
  note q1 = extracted_query_is_bounded_prefix
      [where cfg' = ?qcfg and lib = long_query_lib and req = ?req and v = ?long
         and t' = "replicate 2001 97"]
  note q2 = extracted_query_is_bounded_prefix
      [where cfg' = qpp_default_config and lib = long_query_lib and req = ?req and v = ?long
         and t' = "replicate 2001 97"]
  have c1: "py_slice_to 3 (ascii ''hello'') = ascii ''hel''"
    using a1 short(4) by simp
  have c2: "length (py_slice_to 2000 (ascii ''hello'')) \<le> 2000"
    using a1 by blast
  have c3: "app_wechat_callback ?acfg demo_lib ?req
     = (Inr \<lparr>status = 200,
             body = JObj [(ascii ''text'', JStr (call_failed @ ascii ''timed out''))]\<rparr>,
        [app_openai_call ?acfg (ascii ''{}'')])"
  proof -
    from a1 averify(1) aextract acfg(2)
    have "app_wechat_callback ?acfg demo_lib ?req
        = (Inr \<lparr>status = 200,
                body = JObj [(ascii ''text'',
                  JStr (py_slice_to (app_MAX_REPLY_LEN ?acfg)
                         (fst (app_ask_openai ?acfg demo_lib (take 2000 (ascii ''{}''))))))]\<rparr>,
           snd (app_ask_openai ?acfg demo_lib (take 2000 (ascii ''{}''))))"
      and "snd (app_wechat_callback ?acfg demo_lib ?req)
             = [app_openai_call ?acfg (take 2000 (ascii ''{}''))]"
      by blast+
    then show ?thesis
      by (simp add: ask short acfg(3))
  qed
  have c4: "app_wechat_callback app_default_config demo_lib ?req
     = (Inr \<lparr>status = 200,
             body = JObj [(ascii ''text'', JStr (you_said @ ascii ''{}''))]\<rparr>, [])"
  proof -
    from a2 averify(2) aextract acfg(5)
    have "app_wechat_callback app_default_config demo_lib ?req
           = (Inr \<lparr>status = 200,
                   body = JObj [(ascii ''text'',
                     JStr (py_slice_to (app_MAX_REPLY_LEN app_default_config)
                            (you_said @ take 2000 (ascii ''{}''))))]\<rparr>,
              [])"
      by blast
    then show ?thesis
      by (simp add: short acfg(6))
  qed
  have c5: "qpp_wechat_callback ?qcfg long_query_lib ?req
     = (Inr \<lparr>status = 200,
             body = JObj [(ascii ''text'', JStr (call_failed @ ascii ''timed out'')),
                          (ascii ''meta'',
                           JObj [(ascii ''echo'', JStr (replicate 2000 97)),
                                 (ascii ''model'', JStr qpp_MODEL)])]\<rparr>,
        [qpp_openai_call ?qcfg (replicate 2000 97)])"
  proof -
    from q1 qverify(1) qparsed qextract qcfg(2,3)
    have "qpp_wechat_callback ?qcfg long_query_lib ?req
           = (Inr \<lparr>status = 200,
                   body = JObj [(ascii ''text'',
                                 JStr (py_slice_to 1500
                                        (fst (qpp_ask_openai ?qcfg long_query_lib
                                               (take 2000 (replicate 2001 97)))))),
                                (ascii ''meta'',
                                 JObj [(ascii ''echo'', JStr (take 2000 (replicate 2001 97))),
                                       (ascii ''model'', JStr qpp_MODEL)])]\<rparr>,
              [qpp_openai_call ?qcfg (take 2000 (replicate 2001 97))])"
      by blast
    then show ?thesis
      by (simp add: ask short)
  qed
  have c6: "qpp_wechat_callback qpp_default_config long_query_lib ?req
     = (Inr \<lparr>status = 200,
             body = JObj [(ascii ''text'', JStr not_configured),
                          (ascii ''meta'',
                           JObj [(ascii ''echo'', JStr (replicate 2000 97)),
                                 (ascii ''model'', JStr qpp_MODEL)])]\<rparr>, [])"
  proof -
    from q2 qverify(2) qparsed qextract qcfg(5)
    have "qpp_wechat_callback qpp_default_config long_query_lib ?req
           = (Inr \<lparr>status = 200,
                   body = JObj [(ascii ''text'', JStr not_configured),
                                (ascii ''meta'',
                                 JObj [(ascii ''echo'', JStr (take 2000 (replicate 2001 97))),
                                       (ascii ''model'', JStr qpp_MODEL)])]\<rparr>,
              [])"
      by blast
    then show ?thesis
      by simp
  qed
  show ?thesis
    using c1 c2 c3 c4 c5 c6 by blast
qed

text \<open>
  Claim C8. In every response with status 200 the \<^verbatim>\<open>text\<close> field is a string no longer
  than the maximum reply length: \<^verbatim>\<open>MAX_REPLY_LEN\<close> in \<^verbatim>\<open>app.py\<close>, which as a length
  is not negative, and 1500 in \<^verbatim>\<open>qpp.py\<close>.
\<close>

theorem reply_length_bounded:
  "(fst (app_wechat_callback cfg lib req) = Inr r \<and> status r = 200 \<and>
      0 \<le> app_MAX_REPLY_LEN cfg \<longrightarrow>
      (\<exists>t. py_get (body r) (ascii ''text'') JNull = Inr (JStr t) \<and>
           int (length t) \<le> app_MAX_REPLY_LEN cfg)) \<and>
   (fst (qpp_wechat_callback cfg' lib req) = Inr r' \<and> status r' = 200 \<longrightarrow>
      (\<exists>t. py_get (body r') (ascii ''text'') JNull = Inr (JStr t) \<and> length t \<le> 1500))"
proof (intro conjI impI)
  assume "fst (app_wechat_callback cfg lib req) = Inr r \<and> status r = 200 \<and>
            0 \<le> app_MAX_REPLY_LEN cfg"
  then show "\<exists>t. py_get (body r) (ascii ''text'') JNull = Inr (JStr t) \<and>
           int (length t) \<le> app_MAX_REPLY_LEN cfg"
    by (auto simp: app_callback_unfold invalid_signature_def dict_get_def length_slice
          split: sum.splits if_splits)
next
  have nc: "length not_configured \<le> 1500"
    by (simp add: not_configured_def ascii_def)
  have cut: "length (py_slice_to 1500 a) \<le> 1500" for a :: pystr
    by (simp add: py_slice_to_def)
  assume "fst (qpp_wechat_callback cfg' lib req) = Inr r' \<and> status r' = 200"
  then show "\<exists>t. py_get (body r') (ascii ''text'') JNull = Inr (JStr t) \<and> length t \<le> 1500"
    using nc cut
    by (auto simp: qpp_callback_unfold invalid_signature_def bad_json_def dict_get_def
          qpp_answer_def split: sum.splits if_splits)
qed

text \<open>The theorem at the responses of both files to a first request, without secret and
  without credential.\<close>

theorem reply_length_bounded_witness:
  "(\<exists>t. py_get (JObj [(ascii ''text'', JStr (you_said @ ascii ''{}''))] :: unit json)
            (ascii ''text'') JNull = Inr (JStr t) \<and>
        int (length t) \<le> 1500) \<and>
   (\<exists>t. py_get (JObj [(ascii ''text'', JStr not_configured),
                       (ascii ''meta'',
                        JObj [(ascii ''echo'', JStr (ascii ''hello'')),
                              (ascii ''model'', JStr qpp_MODEL)])] :: unit json)
            (ascii ''text'') JNull = Inr (JStr t) \<and>
        length t \<le> 1500)"
proof -
  let ?req = "fresh_request hello_bytes []"
  let ?ra = "\<lparr>status = 200,
             body = JObj [(ascii ''text'', JStr (you_said @ ascii ''{}''))]\<rparr> :: unit response"
  let ?rq = "\<lparr>status = 200,
             body = JObj [(ascii ''text'', JStr not_configured),
                          (ascii ''meta'',
                           JObj [(ascii ''echo'', JStr (ascii ''hello'')),
                                 (ascii ''model'', JStr qpp_MODEL)])]\<rparr> :: unit response"
  have a: "fst (app_wechat_callback app_default_config demo_lib ?req) = Inr ?ra \<and>
           status ?ra = 200 \<and> 0 \<le> app_MAX_REPLY_LEN app_default_config"
    by (simp add: app_fresh_response) (simp add: app_default_config_def)
  have q: "fst (qpp_wechat_callback qpp_default_config demo_lib ?req) = Inr ?rq \<and>
           status ?rq = 200"
    by (simp add: qpp_hello_response [where raw = hello_bytes and lib = demo_lib]
          qpp_default_config_def)
  have m: "app_MAX_REPLY_LEN app_default_config = 1500"
    by (simp add: app_default_config_def)
  show ?thesis
    using reply_length_bounded
      [where cfg = app_default_config and lib = demo_lib and req = ?req and r = ?ra
         and cfg' = qpp_default_config and r' = ?rq]
      a q
    unfolding m by simp
qed

text \<open>
  Claim C9 (as amended). Without secret and without credential, a first request to
  \<^verbatim>\<open>qpp.py\<close> whose body parses to \<^verbatim>\<open>{"text": "hello"}\<close> is answered with status
  200, the fixed text that no key is configured, and \<^verbatim>\<open>hello\<close> in \<^verbatim>\<open>meta.echo\<close>;
  no outbound call is made. In \<^verbatim>\<open>app.py\<close> the extractor returns \<^verbatim>\<open>hello\<close> for that
  payload, and the completion client without credential answers the prompt
  \<^verbatim>\<open>hello\<close> with a text that ends in it.
\<close>

theorem hello_scenario:
  "(qpp_WEBHOOK_SECRET cfg' = [] \<and>
    (qpp_OPENAI_API_KEY cfg' = None \<or> qpp_OPENAI_API_KEY cfg' = Some []) \<and>
    json_loads lib raw = Some (JObj [(ascii ''text'', JStr (ascii ''hello''))]) \<longrightarrow>
      qpp_wechat_callback cfg' lib (fresh_request raw hdrs)
        = (Inr \<lparr>status = 200,
                body = JObj [(ascii ''text'', JStr not_configured),
                             (ascii ''meta'',
                              JObj [(ascii ''echo'', JStr (ascii ''hello'')),
                                    (ascii ''model'', JStr qpp_MODEL)])]\<rparr>, [])) \<and>
   (app_OPENAI_API_KEY cfg = [] \<longrightarrow>
      app_extract_user_query (float_lib lib) (JObj [(ascii ''text'', JStr (ascii ''hello''))])
        = Inr (ascii ''hello'') \<and>
      app_ask_openai cfg lib (ascii ''hello'') = (you_said @ ascii ''hello'', []) \<and>
      py_contains (ascii ''hello'') (you_said @ ascii ''hello''))"
  by (auto simp: qpp_hello_response extract_hello app_ask_openai_def)
     (simp_all add: you_said_def ascii_def)

text \<open>The theorem at the default configurations, with the bytes of
  \<^verbatim>\<open>{"text":"hello"}\<close> as body.\<close>

theorem hello_scenario_witness:
  "qpp_wechat_callback qpp_default_config demo_lib (fresh_request hello_bytes [])
     = (Inr \<lparr>status = 200,
             body = JObj [(ascii ''text'', JStr not_configured),
                          (ascii ''meta'',
                           JObj [(ascii ''echo'', JStr (ascii ''hello'')),
                                 (ascii ''model'', JStr qpp_MODEL)])]\<rparr>, []) \<and>
   app_extract_user_query no_floats (JObj [(ascii ''text'', JStr (ascii ''hello''))])
     = Inr (ascii ''hello'') \<and>
   app_ask_openai app_default_config demo_lib (ascii ''hello'')
     = (you_said @ ascii ''hello'', []) \<and>
   py_contains (ascii ''hello'') (you_said @ ascii ''hello'')"
proof -
  have q: "qpp_WEBHOOK_SECRET qpp_default_config = []"
    "qpp_OPENAI_API_KEY qpp_default_config = None"
    by (simp_all add: qpp_default_config_def)
  have a: "app_OPENAI_API_KEY app_default_config = []"
    by (simp add: app_default_config_def)
  show ?thesis
    using hello_scenario
      [where cfg' = qpp_default_config and lib = demo_lib and raw = hello_bytes
         and hdrs = "[]" and cfg = app_default_config]
      q a
    by simp
qed

text \<open>The claim as stated fails for \<^verbatim>\<open>qpp.py\<close>: the \<^verbatim>\<open>text\<close> field of its answer is
  the fixed message, which does not contain \<^verbatim>\<open>hello\<close>.\<close>

theorem not_configured_counterexample:
  "fst (qpp_wechat_callback qpp_default_config demo_lib (fresh_request hello_bytes []))
     = Inr \<lparr>status = 200,
            body = JObj [(ascii ''text'', JStr not_configured),
                         (ascii ''meta'',
                          JObj [(ascii ''echo'', JStr (ascii ''hello'')),
                                (ascii ''model'', JStr qpp_MODEL)])]\<rparr> \<and>
   \<not> py_contains (ascii ''hello'') not_configured"
proof -
  have "\<not> py_contains (ascii ''hello'') not_configured"
    by (simp add: not_configured_def ascii_def)
  then show ?thesis
    by (simp add: qpp_hello_response [where raw = hello_bytes and lib = demo_lib]
          qpp_default_config_def)
qed

end
